theory Spec2Isabelle
  imports Complex_Main
begin

section \<open>Tax-credit assessment engine: data model\<close>

text \<open>
  The engine of \<^verbatim>\<open>src/index.tsx\<close>: the dispatcher \<^verbatim>\<open>assessRule\<close>, its nineteen
  evaluators and the accumulation loop of the \<^verbatim>\<open>/api/assess\<close> handler.

  Conventions of the embedding.
  \<^item> A JavaScript number is a rational (\<^typ>\<open>rat\<close>); every binary64 value is one. The
    evaluators of rules 6 and 15, whose credit is characterised exactly below, compute as
    the code does: a decimal literal such as \<^verbatim>\<open>0.30\<close> is the binary64 value nearest to it, and
    every product and sum is rounded to the nearest binary64 value (\<open>fl\<close>, ties to even).
    In the other evaluators the arithmetic is left unrounded; what is proved of them is
    eligibility, sign and values that binary64 represents exactly. Infinities are not
    values of the model: the inputs are finite, and a result of magnitude \<open>2^1024\<close> or more
    is outside the range of \<open>fl\<close>. The one place where the code can produce \<^verbatim>\<open>NaN\<close> from
    well-typed finite input is \<^verbatim>\<open>parseInt\<close>; there the value is an \<^typ>\<open>int option\<close> with
    \<open>None\<close> for \<^verbatim>\<open>NaN\<close>.
  \<^item> A property that may be absent (\<^verbatim>\<open>undefined\<close> or \<^verbatim>\<open>null\<close>) is an \<open>option\<close>; the
    truthiness tests \<^verbatim>\<open>!x\<close> and \<^verbatim>\<open>x || d\<close> are written out for each type.
  \<^item> A string is its UTF-8 byte sequence; the Korean literals the code compares with are
    the constants \<open>str_...\<close> below.
  \<^item> \<^verbatim>\<open>new Date().getFullYear()\<close> is the parameter \<open>currentYear\<close>.
  \<^item> A reason text is the template that produced it (an English key for the Korean
    template) with the values interpolated into it, in order.
\<close>

subsection \<open>String literals of the source\<close>

definition str_sme :: string where
  \<comment> \<open>U+C911 U+C18C U+AE30 U+C5C5 (jungso-gieop, small and medium enterprise)\<close>
  "str_sme =
    [CHR 0xEC, CHR 0xA4, CHR 0x91, CHR 0xEC, CHR 0x86, CHR 0x8C,
     CHR 0xEA, CHR 0xB8, CHR 0xB0, CHR 0xEC, CHR 0x97, CHR 0x85]"

definition str_midsize :: string where
  \<comment> \<open>U+C911 U+ACAC U+AE30 U+C5C5 (junggyeon-gieop, mid-size enterprise)\<close>
  "str_midsize =
    [CHR 0xEC, CHR 0xA4, CHR 0x91, CHR 0xEA, CHR 0xB2, CHR 0xAC,
     CHR 0xEA, CHR 0xB8, CHR 0xB0, CHR 0xEC, CHR 0x97, CHR 0x85]"

definition str_manufacturing :: string where
  \<comment> \<open>U+C81C U+C870 U+C5C5 (jejo-eop, manufacturing)\<close>
  "str_manufacturing =
    [CHR 0xEC, CHR 0xA0, CHR 0x9C, CHR 0xEC, CHR 0xA1, CHR 0xB0,
     CHR 0xEC, CHR 0x97, CHR 0x85]"

definition str_mining :: string where
  \<comment> \<open>U+AD11 U+C5C5 (gwang-eop, mining)\<close>
  "str_mining =
    [CHR 0xEA, CHR 0xB4, CHR 0x91, CHR 0xEC, CHR 0x97, CHR 0x85]"

definition str_construction :: string where
  \<comment> \<open>U+AC74 U+C124 U+C5C5 (geonseol-eop, construction)\<close>
  "str_construction =
    [CHR 0xEA, CHR 0xB1, CHR 0xB4, CHR 0xEC, CHR 0x84, CHR 0xA4,
     CHR 0xEC, CHR 0x97, CHR 0x85]"

definition str_wholesale :: string where
  \<comment> \<open>U+B3C4 U+B9E4 U+C5C5 (domae-eop, wholesale)\<close>
  "str_wholesale =
    [CHR 0xEB, CHR 0x8F, CHR 0x84, CHR 0xEB, CHR 0xA7, CHR 0xA4,
     CHR 0xEC, CHR 0x97, CHR 0x85]"

definition str_retail :: string where
  \<comment> \<open>U+C18C U+B9E4 U+C5C5 (somae-eop, retail)\<close>
  "str_retail =
    [CHR 0xEC, CHR 0x86, CHR 0x8C, CHR 0xEB, CHR 0xA7, CHR 0xA4,
     CHR 0xEC, CHR 0x97, CHR 0x85]"

definition str_automation :: string where
  \<comment> \<open>U+C790 U+B3D9 U+D654 U+C124 U+BE44 (automation equipment)\<close>
  "str_automation =
    [CHR 0xEC, CHR 0x9E, CHR 0x90, CHR 0xEB, CHR 0x8F, CHR 0x99,
     CHR 0xED, CHR 0x99, CHR 0x94, CHR 0xEC, CHR 0x84, CHR 0xA4,
     CHR 0xEB, CHR 0xB9, CHR 0x84]"

definition str_info_system :: string where
  \<comment> \<open>U+C815 U+BCF4 U+C2DC U+C2A4 U+D15C (information system)\<close>
  "str_info_system =
    [CHR 0xEC, CHR 0xA0, CHR 0x95, CHR 0xEB, CHR 0xB3, CHR 0xB4,
     CHR 0xEC, CHR 0x8B, CHR 0x9C, CHR 0xEC, CHR 0x8A, CHR 0xA4,
     CHR 0xED, CHR 0x85, CHR 0x9C]"

definition str_measurement :: string where
  \<comment> \<open>U+ACC4 U+CE21 U+C7A5 U+BE44 (measuring equipment)\<close>
  "str_measurement =
    [CHR 0xEA, CHR 0xB3, CHR 0x84, CHR 0xEC, CHR 0xB8, CHR 0xA1,
     CHR 0xEC, CHR 0x9E, CHR 0xA5, CHR 0xEB, CHR 0xB9, CHR 0x84]"

definition str_energy_saving :: string where
  \<comment> \<open>U+C5D0 U+B108 U+C9C0 U+C808 U+C57D U+C2DC U+C124 (energy-saving facility)\<close>
  "str_energy_saving =
    [CHR 0xEC, CHR 0x97, CHR 0x90, CHR 0xEB, CHR 0x84, CHR 0x88,
     CHR 0xEC, CHR 0xA7, CHR 0x80, CHR 0xEC, CHR 0xA0, CHR 0x88,
     CHR 0xEC, CHR 0x95, CHR 0xBD, CHR 0xEC, CHR 0x8B, CHR 0x9C,
     CHR 0xEC, CHR 0x84, CHR 0xA4]"

definition str_greenhouse_gas :: string where
  \<comment> \<open>U+C628 U+C2E4 U+AC00 U+C2A4 U+AC10 U+CD95 U+C2DC U+C124 (greenhouse-gas reduction facility)\<close>
  "str_greenhouse_gas =
    [CHR 0xEC, CHR 0x98, CHR 0xA8, CHR 0xEC, CHR 0x8B, CHR 0xA4,
     CHR 0xEA, CHR 0xB0, CHR 0x80, CHR 0xEC, CHR 0x8A, CHR 0xA4,
     CHR 0xEA, CHR 0xB0, CHR 0x90, CHR 0xEC, CHR 0xB6, CHR 0x95,
     CHR 0xEC, CHR 0x8B, CHR 0x9C, CHR 0xEC, CHR 0x84, CHR 0xA4]"

definition str_environment :: string where
  \<comment> \<open>U+D658 U+ACBD U+BCF4 U+C804 U+C2DC U+C124 (environmental preservation facility)\<close>
  "str_environment =
    [CHR 0xED, CHR 0x99, CHR 0x98, CHR 0xEA, CHR 0xB2, CHR 0xBD,
     CHR 0xEB, CHR 0xB3, CHR 0xB4, CHR 0xEC, CHR 0xA0, CHR 0x84,
     CHR 0xEC, CHR 0x8B, CHR 0x9C, CHR 0xEC, CHR 0x84, CHR 0xA4]"

definition str_fire_prevention :: string where
  \<comment> \<open>U+D654 U+C7AC U+C608 U+BC29 U+C124 U+BE44 (fire-prevention equipment)\<close>
  "str_fire_prevention =
    [CHR 0xED, CHR 0x99, CHR 0x94, CHR 0xEC, CHR 0x9E, CHR 0xAC,
     CHR 0xEC, CHR 0x98, CHR 0x88, CHR 0xEB, CHR 0xB0, CHR 0xA9,
     CHR 0xEC, CHR 0x84, CHR 0xA4, CHR 0xEB, CHR 0xB9, CHR 0x84]"

definition str_protective_gear :: string where
  \<comment> \<open>U+C548 U+C804 U+BCF4 U+D638 U+C7A5 U+AD6C (protective gear)\<close>
  "str_protective_gear =
    [CHR 0xEC, CHR 0x95, CHR 0x88, CHR 0xEC, CHR 0xA0, CHR 0x84,
     CHR 0xEB, CHR 0xB3, CHR 0xB4, CHR 0xED, CHR 0x98, CHR 0xB8,
     CHR 0xEC, CHR 0x9E, CHR 0xA5, CHR 0xEA, CHR 0xB5, CHR 0xAC]"

definition str_workplace_improvement :: string where
  \<comment> \<open>U+C791 U+C5C5 U+D658 U+ACBD U+AC1C U+C120 U+C124 U+BE44 (workplace-improvement equipment)\<close>
  "str_workplace_improvement =
    [CHR 0xEC, CHR 0x9E, CHR 0x91, CHR 0xEC, CHR 0x97, CHR 0x85,
     CHR 0xED, CHR 0x99, CHR 0x98, CHR 0xEA, CHR 0xB2, CHR 0xBD,
     CHR 0xEA, CHR 0xB0, CHR 0x9C, CHR 0xEC, CHR 0x84, CHR 0xA0,
     CHR 0xEC, CHR 0x84, CHR 0xA4, CHR 0xEB, CHR 0xB9, CHR 0x84]"

definition str_smart_factory :: string where
  \<comment> \<open>U+C2A4 U+B9C8 U+D2B8 U+ACF5 U+C7A5 (smart factory)\<close>
  "str_smart_factory =
    [CHR 0xEC, CHR 0x8A, CHR 0xA4, CHR 0xEB, CHR 0xA7, CHR 0x88,
     CHR 0xED, CHR 0x8A, CHR 0xB8, CHR 0xEA, CHR 0xB3, CHR 0xB5,
     CHR 0xEC, CHR 0x9E, CHR 0xA5]"

definition str_general_rnd :: string where
  \<comment> \<open>U+C77C U+BC18 U+C5F0 U+AD6C U+AC1C U+BC1C U+BE44 (general R&D expense)\<close>
  "str_general_rnd =
    [CHR 0xEC, CHR 0x9D, CHR 0xBC, CHR 0xEB, CHR 0xB0, CHR 0x98,
     CHR 0xEC, CHR 0x97, CHR 0xB0, CHR 0xEA, CHR 0xB5, CHR 0xAC,
     CHR 0xEA, CHR 0xB0, CHR 0x9C, CHR 0xEB, CHR 0xB0, CHR 0x9C,
     CHR 0xEB, CHR 0xB9, CHR 0x84]"

definition str_new_growth_rnd :: string where
  \<comment> \<open>U+C2E0 U+C131 U+C7A5 U+B3D9 U+B825 U+C5F0 U+AD6C U+AC1C U+BC1C U+BE44 (new-growth-engine R&D expense)\<close>
  "str_new_growth_rnd =
    [CHR 0xEC, CHR 0x8B, CHR 0xA0, CHR 0xEC, CHR 0x84, CHR 0xB1,
     CHR 0xEC, CHR 0x9E, CHR 0xA5, CHR 0xEB, CHR 0x8F, CHR 0x99,
     CHR 0xEB, CHR 0xA0, CHR 0xA5, CHR 0xEC, CHR 0x97, CHR 0xB0,
     CHR 0xEA, CHR 0xB5, CHR 0xAC, CHR 0xEA, CHR 0xB0, CHR 0x9C,
     CHR 0xEB, CHR 0xB0, CHR 0x9C, CHR 0xEB, CHR 0xB9, CHR 0x84]"

definition str_design_rnd :: string where
  \<comment> \<open>U+B514 U+C790 U+C778 U+AC1C U+BC1C U+BE44 (design development expense)\<close>
  "str_design_rnd =
    [CHR 0xEB, CHR 0x94, CHR 0x94, CHR 0xEC, CHR 0x9E, CHR 0x90,
     CHR 0xEC, CHR 0x9D, CHR 0xB8, CHR 0xEA, CHR 0xB0, CHR 0x9C,
     CHR 0xEB, CHR 0xB0, CHR 0x9C, CHR 0xEB, CHR 0xB9, CHR 0x84]"

definition str_new_tech_rnd :: string where
  \<comment> \<open>U+C2E0 U+AE30 U+C220 U+AC1C U+BC1C U+BE44 (new-technology development expense)\<close>
  "str_new_tech_rnd =
    [CHR 0xEC, CHR 0x8B, CHR 0xA0, CHR 0xEA, CHR 0xB8, CHR 0xB0,
     CHR 0xEC, CHR 0x88, CHR 0xA0, CHR 0xEA, CHR 0xB0, CHR 0x9C,
     CHR 0xEB, CHR 0xB0, CHR 0x9C, CHR 0xEB, CHR 0xB9, CHR 0x84]"

definition str_cooperative :: string where
  \<comment> \<open>U+D611 U+B3D9 U+C870 U+D569 (cooperative)\<close>
  "str_cooperative =
    [CHR 0xED, CHR 0x98, CHR 0x91, CHR 0xEB, CHR 0x8F, CHR 0x99,
     CHR 0xEC, CHR 0xA1, CHR 0xB0, CHR 0xED, CHR 0x95, CHR 0xA9]"

definition str_social_enterprise :: string where
  \<comment> \<open>U+C0AC U+D68C U+C801 U+AE30 U+C5C5 (social enterprise)\<close>
  "str_social_enterprise =
    [CHR 0xEC, CHR 0x82, CHR 0xAC, CHR 0xED, CHR 0x9A, CHR 0x8C,
     CHR 0xEC, CHR 0xA0, CHR 0x81, CHR 0xEA, CHR 0xB8, CHR 0xB0,
     CHR 0xEC, CHR 0x97, CHR 0x85]"

definition str_designated_donation :: string where
  \<comment> \<open>U+C9C0 U+C815 U+AE30 U+BD80 U+AE08 (designated donation)\<close>
  "str_designated_donation =
    [CHR 0xEC, CHR 0xA7, CHR 0x80, CHR 0xEC, CHR 0xA0, CHR 0x95,
     CHR 0xEA, CHR 0xB8, CHR 0xB0, CHR 0xEB, CHR 0xB6, CHR 0x80,
     CHR 0xEA, CHR 0xB8, CHR 0x88]"

definition str_statutory_donation :: string where
  \<comment> \<open>U+BC95 U+C815 U+AE30 U+BD80 U+AE08 (statutory donation)\<close>
  "str_statutory_donation =
    [CHR 0xEB, CHR 0xB2, CHR 0x95, CHR 0xEC, CHR 0xA0, CHR 0x95,
     CHR 0xEA, CHR 0xB8, CHR 0xB0, CHR 0xEB, CHR 0xB6, CHR 0x80,
     CHR 0xEA, CHR 0xB8, CHR 0x88]"

subsection \<open>Values, inputs and results\<close>

datatype jv =
    JNum rat
  | JNaN
  | JStr string
  | JBool bool
  | JObj "(string \<times> jv) list"

datatype reason = Reason string "jv list"

record rule =
  rule_id :: int
  rule_name :: string

record company_profile =
  company_type :: string
  industry :: string
  is_capital_area :: int

record employment_data =
  employee_increase :: "rat option"
  youth_employees :: "rat option"
  disabled_employees :: "rat option"
  career_break_women :: "rat option"
  insurance_paid :: "rat option"

record investment_item =
  facility_type :: "string option"
  investment_amount :: "rat option"

record rnd_item =
  rnd_type :: "string option"
  expense_amount :: "rat option"

record other_data =
  startup_date :: "string option"
  is_youth_startup :: "bool option"
  founder_age :: "rat option"
  relocation_completed :: "bool option"
  certification :: "bool option"
  certification_type :: "string option"
  donation_amount :: "rat option"
  donation_type :: "string option"
  business_income :: "rat option"
  calculated_tax :: "rat option"
  vehicle_count :: "rat option"
  depreciation_expense :: "rat option"
  rental_expense :: "rat option"
  fuel_expense :: "rat option"

record AssessmentContext =
  ctx_company :: company_profile
  ctx_employmentData :: "employment_data option"
  ctx_investmentData :: "investment_item list option"
  ctx_rndData :: "rnd_item list option"
  ctx_otherData :: "other_data option"

record AssessmentResult =
  eligible :: bool
  creditAmount :: rat
  reasons :: reason
  details :: "(string \<times> jv) list"

subsection \<open>JavaScript operators used by the evaluators\<close>

definition or_num :: "rat option \<Rightarrow> rat \<Rightarrow> rat" where
  \<comment> \<open>\<^verbatim>\<open>x || d\<close> on a number: absent and 0 are falsy\<close>
  "or_num x d = (case x of None \<Rightarrow> d | Some v \<Rightarrow> if v = 0 then d else v)"

definition or_str :: "string option \<Rightarrow> string \<Rightarrow> string" where
  \<comment> \<open>\<^verbatim>\<open>x || d\<close> on a string: absent and the empty string are falsy\<close>
  "or_str x d = (case x of None \<Rightarrow> d | Some s \<Rightarrow> if s = [] then d else s)"

definition truthy_bool :: "bool option \<Rightarrow> bool" where
  "truthy_bool x = (case x of None \<Rightarrow> False | Some b \<Rightarrow> b)"

fun starts_with :: "string \<Rightarrow> string \<Rightarrow> bool" where
  "starts_with s [] = True"
| "starts_with [] (p # ps) = False"
| "starts_with (c # cs) (p # ps) = (c = p \<and> starts_with cs ps)"

fun js_includes :: "string \<Rightarrow> string \<Rightarrow> bool" where
  \<comment> \<open>\<^verbatim>\<open>s.includes(pat)\<close>\<close>
  "js_includes [] pat = (pat = [])"
| "js_includes (c # cs) pat = (starts_with (c # cs) pat \<or> js_includes cs pat)"

definition split_first :: "string \<Rightarrow> string" where
  \<comment> \<open>\<^verbatim>\<open>s.split('-')[0]\<close>\<close>
  "split_first s = takeWhile (\<lambda>c. c \<noteq> CHR ''-'') s"

definition is_ws1 :: "char \<Rightarrow> bool" where
  \<comment> \<open>TAB, LF, VT, FF, CR, SP\<close>
  "is_ws1 a = (a \<in> set [CHR 0x09, CHR 0x0A, CHR 0x0B, CHR 0x0C, CHR 0x0D, CHR 0x20])"

definition is_ws2 :: "char \<Rightarrow> char \<Rightarrow> bool" where
  \<comment> \<open>U+00A0\<close>
  "is_ws2 a b = (a = CHR 0xC2 \<and> b = CHR 0xA0)"

definition is_ws3 :: "char \<Rightarrow> char \<Rightarrow> char \<Rightarrow> bool" where
  \<comment> \<open>U+1680, U+2000..U+200A, U+2028, U+2029, U+202F, U+205F, U+3000, U+FEFF\<close>
  "is_ws3 a b c =
     ((a = CHR 0xE1 \<and> b = CHR 0x9A \<and> c = CHR 0x80)
    \<or> (a = CHR 0xE2 \<and> b = CHR 0x80 \<and>
         ((128 \<le> (of_char c :: nat) \<and> (of_char c :: nat) \<le> 138)
          \<or> c = CHR 0xA8 \<or> c = CHR 0xA9 \<or> c = CHR 0xAF))
    \<or> (a = CHR 0xE2 \<and> b = CHR 0x81 \<and> c = CHR 0x9F)
    \<or> (a = CHR 0xE3 \<and> b = CHR 0x80 \<and> c = CHR 0x80)
    \<or> (a = CHR 0xEF \<and> b = CHR 0xBB \<and> c = CHR 0xBF))"

fun trim_start :: "string \<Rightarrow> string" where
  \<comment> \<open>leading white space and line terminators removed, as \<^verbatim>\<open>parseInt\<close> does first\<close>
  "trim_start (a # b # c # cs) =
     (if is_ws1 a then trim_start (b # c # cs)
      else if is_ws2 a b then trim_start (c # cs)
      else if is_ws3 a b c then trim_start cs
      else a # b # c # cs)"
| "trim_start [a, b] =
     (if is_ws1 a then trim_start [b] else if is_ws2 a b then [] else [a, b])"
| "trim_start [a] = (if is_ws1 a then [] else [a])"
| "trim_start [] = []"

definition digit_value :: "char \<Rightarrow> nat option" where
  "digit_value c =
     (let n = (of_char c :: nat) in
      if 48 \<le> n \<and> n \<le> 57 then Some (n - 48)
      else if 97 \<le> n \<and> n \<le> 122 then Some (n - 87)
      else if 65 \<le> n \<and> n \<le> 90 then Some (n - 55)
      else None)"

definition is_radix_digit :: "nat \<Rightarrow> char \<Rightarrow> bool" where
  "is_radix_digit R c = (case digit_value c of None \<Rightarrow> False | Some d \<Rightarrow> d < R)"

definition parseInt :: "string \<Rightarrow> int option" where
  \<comment> \<open>\<^verbatim>\<open>parseInt(s)\<close> with no radix argument; \<open>None\<close> is \<^verbatim>\<open>NaN\<close>\<close>
  "parseInt inputString =
     (let S = trim_start inputString;
          sign = (if S \<noteq> [] \<and> hd S = CHR ''-'' then - 1 else (1::int));
          S1 = (if S \<noteq> [] \<and> (hd S = CHR ''+'' \<or> hd S = CHR ''-'') then tl S else S);
          hex = (2 \<le> length S1 \<and> (take 2 S1 = ''0x'' \<or> take 2 S1 = ''0X''));
          R = (if hex then 16 else (10::nat));
          S2 = (if hex then drop 2 S1 else S1);
          Z = takeWhile (is_radix_digit R) S2
      in if Z = [] then None
         else Some (sign * int (foldl (\<lambda>acc c. acc * R +
                      (case digit_value c of None \<Rightarrow> 0 | Some d \<Rightarrow> d)) 0 Z)))"

definition num_of_year :: "int option \<Rightarrow> jv" where
  "num_of_year y = (case y of None \<Rightarrow> JNaN | Some n \<Rightarrow> JNum (of_int n))"

subsection \<open>Binary64 rounding\<close>

text \<open>
  \<open>fl x\<close> is the binary64 value nearest to the rational \<open>x\<close>: with \<open>e\<close> the binary exponent
  of \<open>x\<close> (at least -1022, so that the subnormal range is covered), the quotient of \<open>x\<close> by
  the unit in the last place \<open>2^(e - 52)\<close> is rounded to the nearest integer, a tie going
  to the even one.
\<close>

function bit_length :: "int \<Rightarrow> nat" where
  \<comment> \<open>the number of binary digits of a positive integer\<close>
  "bit_length n = (if n \<le> 0 then 0 else Suc (bit_length (n div 2)))"
  by auto
termination
  by (relation "measure nat") auto

declare bit_length.simps [simp del]

definition pow2 :: "int \<Rightarrow> rat" where
  "pow2 e = (if 0 \<le> e then 2 ^ nat e else 1 / 2 ^ nat (- e))"

definition binary_exponent :: "rat \<Rightarrow> int" where
  \<comment> \<open>for \<open>a > 0\<close>, the \<open>e\<close> with \<open>2^e \<le> a < 2^(e + 1)\<close>\<close>
  "binary_exponent a =
     (let (p, q) = quotient_of a;
          k = int (bit_length p) - int (bit_length q)
      in if pow2 k \<le> a then k else k - 1)"

definition round_half_even :: "rat \<Rightarrow> int" where
  "round_half_even q =
     (let n = \<lfloor>q\<rfloor>; f = q - of_int n
      in if f < 1 / 2 then n
         else if 1 / 2 < f then n + 1
         else if even n then n else n + 1)"

definition fl :: "rat \<Rightarrow> rat" where
  "fl x =
     (if x = 0 then 0
      else
        let a = \<bar>x\<bar>;
            e = max (binary_exponent a) (- 1022);
            ulp = pow2 (e - 52)
        in sgn x * of_int (round_half_even (a / ulp)) * ulp)"

section \<open>Rule evaluators\<close>

subsection \<open>Employment rules (1 to 5)\<close>

definition assessEmploymentIncrease ::
  "rule \<Rightarrow> company_profile \<Rightarrow> employment_data option \<Rightarrow> AssessmentResult" where
  "assessEmploymentIncrease rule company data =
     (let ineligible = \<lparr> eligible = False, creditAmount = 0,
            reasons = Reason ''no increase in regular employees over the previous year'' [],
            details = [(''employee_increase'',
              JNum (case data of None \<Rightarrow> 0 | Some d \<Rightarrow> or_num (employee_increase d) 0))] \<rparr>
      in case data of
        None \<Rightarrow> ineligible
      | Some d \<Rightarrow>
         (case employee_increase d of
            None \<Rightarrow> ineligible
          | Some increase \<Rightarrow>
             if increase = 0 \<or> increase < 1 then ineligible
             else
               let companyType = company_type company;
                   isCapitalArea = (is_capital_area company = 1);
                   perPersonCredit =
                     (if companyType = str_sme then
                        (if isCapitalArea then 11000000 else 12000000)
                      else if companyType = str_midsize then
                        (if isCapitalArea then 9000000 else 10000000)
                      else (if isCapitalArea then 4500000 else 5000000));
                   totalCredit = perPersonCredit * increase
               in \<lparr> eligible = True, creditAmount = totalCredit,
                    reasons = Reason ''<type> <n> more employees, <c> x 10000 won per head''
                      [JStr companyType, JNum increase, JNum (perPersonCredit / 10000)],
                    details = [(''company_type'', JStr companyType),
                               (''is_capital_area'', JBool isCapitalArea),
                               (''employee_increase'', JNum increase),
                               (''per_person_credit'', JNum perPersonCredit),
                               (''total_credit'', JNum totalCredit)] \<rparr>))"

definition assessYouthEmployment ::
  "rule \<Rightarrow> company_profile \<Rightarrow> employment_data option \<Rightarrow> AssessmentResult" where
  "assessYouthEmployment rule company data =
     (let ineligible = \<lparr> eligible = False, creditAmount = 0,
            reasons = Reason ''no increase in regular youth (15-34) employees'' [],
            details = [] \<rparr>
      in case data of
        None \<Rightarrow> ineligible
      | Some d \<Rightarrow>
         (case youth_employees d of
            None \<Rightarrow> ineligible
          | Some youthIncrease \<Rightarrow>
             if youthIncrease = 0 \<or> youthIncrease < 1 then ineligible
             else
               let companyType = company_type company;
                   additionalCredit =
                     (if companyType = str_sme then 12000000
                      else if companyType = str_midsize then 10000000
                      else 5000000);
                   totalCredit = additionalCredit * youthIncrease
               in \<lparr> eligible = True, creditAmount = totalCredit,
                    reasons = Reason ''<n> more regular youth employees, <c> x 10000 won extra per head''
                      [JNum youthIncrease, JNum (additionalCredit / 10000)],
                    details = [(''company_type'', JStr companyType),
                               (''youth_increase'', JNum youthIncrease),
                               (''additional_credit'', JNum additionalCredit),
                               (''total_credit'', JNum totalCredit)] \<rparr>))"

definition assessDisabledEmployment ::
  "rule \<Rightarrow> company_profile \<Rightarrow> employment_data option \<Rightarrow> AssessmentResult" where
  "assessDisabledEmployment rule company data =
     (let ineligible = \<lparr> eligible = False, creditAmount = 0,
            reasons = Reason ''no disabled employees hired'' [],
            details = [] \<rparr>
      in case data of
        None \<Rightarrow> ineligible
      | Some d \<Rightarrow>
         (case disabled_employees d of
            None \<Rightarrow> ineligible
          | Some disabledCount \<Rightarrow>
             if disabledCount = 0 \<or> disabledCount < 1 then ineligible
             else
               let perPersonCredit = 9600000;
                   totalCredit = perPersonCredit * disabledCount
               in \<lparr> eligible = True, creditAmount = totalCredit,
                    reasons = Reason ''<n> disabled employees, 9.6 million won a year per head''
                      [JNum disabledCount],
                    details = [(''disabled_count'', JNum disabledCount),
                               (''per_person_credit'', JNum perPersonCredit),
                               (''total_credit'', JNum totalCredit)] \<rparr>))"

definition assessCareerBreakWomen ::
  "rule \<Rightarrow> company_profile \<Rightarrow> employment_data option \<Rightarrow> AssessmentResult" where
  "assessCareerBreakWomen rule company data =
     (let ineligible = \<lparr> eligible = False, creditAmount = 0,
            reasons = Reason ''no career-break women rehired'' [],
            details = [] \<rparr>
      in case data of
        None \<Rightarrow> ineligible
      | Some d \<Rightarrow>
         (case career_break_women d of
            None \<Rightarrow> ineligible
          | Some count \<Rightarrow>
             if count = 0 \<or> count < 1 then ineligible
             else
               let perPersonCredit = 11000000;
                   totalCredit = perPersonCredit * count
               in \<lparr> eligible = True, creditAmount = totalCredit,
                    reasons = Reason ''<n> career-break women rehired, 11 million won a year per head (2 years at most)''
                      [JNum count],
                    details = [(''count'', JNum count),
                               (''per_person_credit'', JNum perPersonCredit),
                               (''total_credit'', JNum totalCredit),
                               (''max_years'', JNum 2)] \<rparr>))"

definition assessSocialInsurance ::
  "rule \<Rightarrow> company_profile \<Rightarrow> employment_data option \<Rightarrow> AssessmentResult" where
  "assessSocialInsurance rule company data =
     (if company_type company \<noteq> str_sme then
        \<lparr> eligible = False, creditAmount = 0,
          reasons = Reason ''small and medium enterprises only'' [], details = [] \<rparr>
      else
        let ineligible = \<lparr> eligible = False, creditAmount = 0,
              reasons = Reason ''no social insurance contributions paid'' [],
              details = [] \<rparr>
        in case data of
          None \<Rightarrow> ineligible
        | Some d \<Rightarrow>
           (case insurance_paid d of
              None \<Rightarrow> ineligible
            | Some insurancePaid \<Rightarrow>
               if insurancePaid = 0 \<or> insurancePaid < 1 then ineligible
               else
                 let creditRate = 0.25;
                     maxPerPerson = 1000000;
                     totalCredit0 = insurancePaid * creditRate;
                     newEmployees = or_num (employee_increase d) 0 + or_num (youth_employees d) 0;
                     maxCredit = maxPerPerson * newEmployees;
                     totalCredit = (if totalCredit0 > maxCredit then maxCredit else totalCredit0)
                 in \<lparr> eligible = True, creditAmount = totalCredit,
                      reasons = Reason ''25% of employer-paid social insurance (1 million won a year per head at most)'' [],
                      details = [(''insurance_paid'', JNum insurancePaid),
                                 (''credit_rate'', JNum creditRate),
                                 (''new_employees'', JNum newEmployees),
                                 (''total_credit'', JNum totalCredit)] \<rparr>))"

subsection \<open>Reduction rules (6 to 10)\<close>

definition assessSmeSpecialReduction ::
  "rule \<Rightarrow> company_profile \<Rightarrow> other_data option \<Rightarrow> AssessmentResult" where
  "assessSmeSpecialReduction rule company data =
     (if company_type company \<noteq> str_sme then
        \<lparr> eligible = False, creditAmount = 0,
          reasons = Reason ''small and medium enterprises only'' [], details = [] \<rparr>
      else
        let ineligible = \<lparr> eligible = False, creditAmount = 0,
              reasons = Reason ''no business income information'' [],
              details = [] \<rparr>
        in case data of
          None \<Rightarrow> ineligible
        | Some d \<Rightarrow>
           (case business_income d of
              None \<Rightarrow> ineligible
            | Some income \<Rightarrow>
               if income = 0 then ineligible
               else
                 let industry = industry company;
                     tax = or_num (calculated_tax d) (fl (income * fl 0.10));
                     reductionRate =
                       (if industry \<in> set [str_manufacturing, str_mining, str_construction,
                                             str_wholesale, str_retail]
                        then fl 0.10 else fl 0.05);
                     totalCredit = fl (tax * reductionRate)
                 in \<lparr> eligible = True, creditAmount = totalCredit,
                      reasons = Reason ''SME special tax reduction, <p>% applied''
                        [JNum (fl (reductionRate * 100))],
                      details = [(''industry'', JStr industry),
                                 (''business_income'', JNum income),
                                 (''calculated_tax'', JNum tax),
                                 (''reduction_rate'', JNum reductionRate),
                                 (''total_credit'', JNum totalCredit)] \<rparr>))"

definition years_over :: "int option \<Rightarrow> int \<Rightarrow> bool" where
  \<comment> \<open>\<^verbatim>\<open>y > n\<close>, false when \<open>y\<close> is \<^verbatim>\<open>NaN\<close>\<close>
  "years_over y n = (case y of None \<Rightarrow> False | Some v \<Rightarrow> v > n)"

definition assessStartupSmeReduction ::
  "int \<Rightarrow> rule \<Rightarrow> company_profile \<Rightarrow> other_data option \<Rightarrow> AssessmentResult" where
  "assessStartupSmeReduction currentYear rule company data =
     (let noinfo = \<lparr> eligible = False, creditAmount = 0,
            reasons = Reason ''no startup information'' [], details = [] \<rparr>
      in case data of
        None \<Rightarrow> noinfo
      | Some d \<Rightarrow>
         (case startup_date d of
            None \<Rightarrow> noinfo
          | Some sd \<Rightarrow>
             if sd = [] then noinfo
             else
               let startupYear = parseInt (split_first sd);
                   yearsFromStartup = map_option (\<lambda>y. currentYear - y) startupYear
               in if years_over yearsFromStartup 5 then
                    \<lparr> eligible = False, creditAmount = 0,
                      reasons = Reason ''more than 5 years since startup'' [], details = [] \<rparr>
                  else
                    let tax = or_num (calculated_tax d) 0;
                        isYouthStartup = truthy_bool (is_youth_startup d);
                        reductionRate = (if isYouthStartup then 1.0 else 0.5);
                        totalCredit = tax * reductionRate
                    in \<lparr> eligible = True, creditAmount = totalCredit,
                         reasons = Reason ''<youth|general> startup, <p>% reduction (year <k>)''
                           [JBool isYouthStartup, JNum (reductionRate * 100),
                            num_of_year (map_option (\<lambda>y. y + 1) yearsFromStartup)],
                         details = [(''startup_year'', num_of_year startupYear),
                                    (''years_from_startup'', num_of_year yearsFromStartup),
                                    (''reduction_rate'', JNum reductionRate),
                                    (''total_credit'', JNum totalCredit)] \<rparr>))"

definition assessManufacturingRelocation ::
  "rule \<Rightarrow> company_profile \<Rightarrow> other_data option \<Rightarrow> AssessmentResult" where
  "assessManufacturingRelocation rule company data =
     (let noinfo = \<lparr> eligible = False, creditAmount = 0,
            reasons = Reason ''no relocation information'' [], details = [] \<rparr>
      in case data of
        None \<Rightarrow> noinfo
      | Some d \<Rightarrow>
         if \<not> truthy_bool (relocation_completed d) then noinfo
         else if industry company \<noteq> str_manufacturing then
           \<lparr> eligible = False, creditAmount = 0,
             reasons = Reason ''manufacturing only'' [], details = [] \<rparr>
         else if is_capital_area company = 1 then
           \<lparr> eligible = False, creditAmount = 0,
             reasons = Reason ''only for a move from the capital region to the provinces'' [],
             details = [] \<rparr>
         else
           let tax = or_num (calculated_tax d) 0;
               totalCredit = tax * 1.0
           in \<lparr> eligible = True, creditAmount = totalCredit,
                reasons = Reason ''manufacturing relocation, 100% reduction (for 7 years)'' [],
                details = [(''total_credit'', JNum totalCredit)] \<rparr>)"

definition assessSocialEnterpriseReduction ::
  "rule \<Rightarrow> company_profile \<Rightarrow> other_data option \<Rightarrow> AssessmentResult" where
  "assessSocialEnterpriseReduction rule company data =
     (let noinfo = \<lparr> eligible = False, creditAmount = 0,
            reasons = Reason ''no social enterprise or cooperative certification'' [],
            details = [] \<rparr>
      in case data of
        None \<Rightarrow> noinfo
      | Some d \<Rightarrow>
         if \<not> truthy_bool (certification d) then noinfo
         else
           let tax = or_num (calculated_tax d) 0;
               certificationType = or_str (certification_type d) str_cooperative;
               reductionRate = (if certificationType = str_social_enterprise then 1.0 else 0.5);
               totalCredit = tax * reductionRate
           in \<lparr> eligible = True, creditAmount = totalCredit,
                reasons = Reason ''<certification type> <p>% reduction''
                  [JStr certificationType, JNum (reductionRate * 100)],
                details = [(''certification_type'', JStr certificationType),
                           (''reduction_rate'', JNum reductionRate),
                           (''total_credit'', JNum totalCredit)] \<rparr>)"

definition assessYouthStartupReduction ::
  "int \<Rightarrow> rule \<Rightarrow> company_profile \<Rightarrow> other_data option \<Rightarrow> AssessmentResult" where
  "assessYouthStartupReduction currentYear rule company data =
     (let tooold = \<lparr> eligible = False, creditAmount = 0,
            reasons = Reason ''founder is not 34 or younger'' [], details = [] \<rparr>;
          noinfo = \<lparr> eligible = False, creditAmount = 0,
            reasons = Reason ''no startup information'' [], details = [] \<rparr>
      in case data of
        None \<Rightarrow> tooold
      | Some d \<Rightarrow>
         (case founder_age d of
            None \<Rightarrow> tooold
          | Some age \<Rightarrow>
             if age = 0 \<or> age > 34 then tooold
             else
               (case startup_date d of
                  None \<Rightarrow> noinfo
                | Some sd \<Rightarrow>
                   if sd = [] then noinfo
                   else
                     let startupYear = parseInt (split_first sd);
                         yearsFromStartup = map_option (\<lambda>y. currentYear - y) startupYear
                     in if years_over yearsFromStartup 5 then
                          \<lparr> eligible = False, creditAmount = 0,
                            reasons = Reason ''more than 5 years since startup'' [],
                            details = [] \<rparr>
                        else
                          let tax = or_num (calculated_tax d) 0;
                              maxAmount = 200000000;
                              totalCredit0 = tax * 1.0;
                              totalCredit =
                                (if totalCredit0 > maxAmount then maxAmount else totalCredit0)
                          in \<lparr> eligible = True, creditAmount = totalCredit,
                               reasons = Reason ''youth startup, 100% reduction (200 million won a year at most, year <k>)''
                                 [num_of_year (map_option (\<lambda>y. y + 1) yearsFromStartup)],
                               details = [(''founder_age'', JNum age),
                                          (''years_from_startup'', num_of_year yearsFromStartup),
                                          (''total_credit'', JNum totalCredit)] \<rparr>)))"

subsection \<open>Facility investment rules (11 to 14)\<close>

definition truthy_member :: "string option \<Rightarrow> string list \<Rightarrow> bool" where
  \<comment> \<open>\<^verbatim>\<open>x && [..].includes(x)\<close>, as a filter condition\<close>
  "truthy_member x xs = (case x of None \<Rightarrow> False | Some s \<Rightarrow> s \<noteq> [] \<and> s \<in> set xs)"

definition sum_investment :: "investment_item list \<Rightarrow> rat" where
  \<comment> \<open>\<^verbatim>\<open>reduce((sum, inv) => sum + (inv.investment_amount || 0), 0)\<close>\<close>
  "sum_investment invs = foldl (\<lambda>sum inv. sum + or_num (investment_amount inv) 0) 0 invs"

definition sum_expense :: "rnd_item list \<Rightarrow> rat" where
  \<comment> \<open>\<^verbatim>\<open>reduce((sum, rnd) => sum + (rnd.expense_amount || 0), 0)\<close>\<close>
  "sum_expense rnds = foldl (\<lambda>sum rnd. sum + or_num (expense_amount rnd) 0) 0 rnds"

definition assessProductivityFacilities ::
  "rule \<Rightarrow> company_profile \<Rightarrow> investment_item list option \<Rightarrow> AssessmentResult" where
  "assessProductivityFacilities rule company data =
     (let nodata = \<lparr> eligible = False, creditAmount = 0,
            reasons = Reason ''no productivity facility investment'' [], details = [] \<rparr>
      in case data of
        None \<Rightarrow> nodata
      | Some items \<Rightarrow>
         if items = [] then nodata
         else
           let relevantInvestments = filter (\<lambda>inv. truthy_member (facility_type inv)
                  [str_automation, str_info_system, str_measurement]) items
           in if relevantInvestments = [] then
                \<lparr> eligible = False, creditAmount = 0,
                  reasons = Reason ''no investment in the facilities concerned'' [],
                  details = [] \<rparr>
              else
                let totalInvestment = sum_investment relevantInvestments
                in if totalInvestment < 10000000 then
                     \<lparr> eligible = False, creditAmount = 0,
                       reasons = Reason ''investment below 10 million won'' [], details = [] \<rparr>
                   else
                     let companyType = company_type company;
                         creditRate = (if companyType = str_sme then 0.10
                                       else if companyType = str_midsize then 0.05
                                       else 0.03);
                         totalCredit = totalInvestment * creditRate
                     in \<lparr> eligible = True, creditAmount = totalCredit,
                          reasons = Reason ''productivity facility investment <a> x 100 million won, <p>% credit''
                            [JNum (totalInvestment / 100000000), JNum (creditRate * 100)],
                          details = [(''total_investment'', JNum totalInvestment),
                                     (''credit_rate'', JNum creditRate),
                                     (''total_credit'', JNum totalCredit)] \<rparr>)"

definition assessEnergyEnvironmentFacilities ::
  "rule \<Rightarrow> company_profile \<Rightarrow> investment_item list option \<Rightarrow> AssessmentResult" where
  "assessEnergyEnvironmentFacilities rule company data =
     (let nodata = \<lparr> eligible = False, creditAmount = 0,
            reasons = Reason ''no energy-saving or environmental facility investment'' [],
            details = [] \<rparr>
      in case data of
        None \<Rightarrow> nodata
      | Some items \<Rightarrow>
         if items = [] then nodata
         else
           let relevantInvestments = filter (\<lambda>inv. truthy_member (facility_type inv)
                  [str_energy_saving, str_greenhouse_gas, str_environment]) items
           in if relevantInvestments = [] then
                \<lparr> eligible = False, creditAmount = 0,
                  reasons = Reason ''no investment in the facilities concerned'' [],
                  details = [] \<rparr>
              else
                let totalInvestment = sum_investment relevantInvestments
                in if totalInvestment < 10000000 then
                     \<lparr> eligible = False, creditAmount = 0,
                       reasons = Reason ''investment below 10 million won'' [], details = [] \<rparr>
                   else
                     let companyType = company_type company;
                         creditRate = (if companyType = str_sme then 0.10
                                       else if companyType = str_midsize then 0.05
                                       else 0.03);
                         totalCredit = totalInvestment * creditRate
                     in \<lparr> eligible = True, creditAmount = totalCredit,
                          reasons = Reason ''energy and environment facility investment <a> x 100 million won, <p>% credit''
                            [JNum (totalInvestment / 100000000), JNum (creditRate * 100)],
                          details = [(''total_investment'', JNum totalInvestment),
                                     (''credit_rate'', JNum creditRate),
                                     (''total_credit'', JNum totalCredit)] \<rparr>)"

definition assessSafetyFacilities ::
  "rule \<Rightarrow> company_profile \<Rightarrow> investment_item list option \<Rightarrow> AssessmentResult" where
  "assessSafetyFacilities rule company data =
     (let nodata = \<lparr> eligible = False, creditAmount = 0,
            reasons = Reason ''no safety facility investment'' [], details = [] \<rparr>
      in case data of
        None \<Rightarrow> nodata
      | Some items \<Rightarrow>
         if items = [] then nodata
         else
           let relevantInvestments = filter (\<lambda>inv. truthy_member (facility_type inv)
                  [str_fire_prevention, str_protective_gear, str_workplace_improvement]) items
           in if relevantInvestments = [] then
                \<lparr> eligible = False, creditAmount = 0,
                  reasons = Reason ''no investment in the facilities concerned'' [],
                  details = [] \<rparr>
              else
                let totalInvestment = sum_investment relevantInvestments
                in if totalInvestment < 10000000 then
                     \<lparr> eligible = False, creditAmount = 0,
                       reasons = Reason ''investment below 10 million won'' [], details = [] \<rparr>
                   else
                     let companyType = company_type company;
                         creditRate = (if companyType = str_sme then 0.10
                                       else if companyType = str_midsize then 0.07
                                       else 0.03);
                         totalCredit = totalInvestment * creditRate
                     in \<lparr> eligible = True, creditAmount = totalCredit,
                          reasons = Reason ''safety facility investment <a> x 100 million won, <p>% credit''
                            [JNum (totalInvestment / 100000000), JNum (creditRate * 100)],
                          details = [(''total_investment'', JNum totalInvestment),
                                     (''credit_rate'', JNum creditRate),
                                     (''total_credit'', JNum totalCredit)] \<rparr>)"

definition assessSmartFactory ::
  "rule \<Rightarrow> company_profile \<Rightarrow> investment_item list option \<Rightarrow> AssessmentResult" where
  "assessSmartFactory rule company data =
     (let nodata = \<lparr> eligible = False, creditAmount = 0,
            reasons = Reason ''no smart factory equipment investment (no data)'' [],
            details = [] \<rparr>
      in case data of
        None \<Rightarrow> nodata
      | Some items \<Rightarrow>
         if items = [] then nodata
         else
           let relevantInvestments = filter (\<lambda>inv.
                  (case facility_type inv of
                     None \<Rightarrow> False
                   | Some ft \<Rightarrow> ft \<noteq> [] \<and> js_includes ft str_smart_factory)) items
           in if relevantInvestments = [] then
                \<lparr> eligible = False, creditAmount = 0,
                  reasons = Reason ''no smart factory equipment investment'' [],
                  details = [] \<rparr>
              else
                let totalInvestment = sum_investment relevantInvestments
                in if totalInvestment < 100000000 then
                     \<lparr> eligible = False, creditAmount = 0,
                       reasons = Reason ''investment below 100 million won'' [], details = [] \<rparr>
                   else
                     let companyType = company_type company;
                         creditRate = (if companyType = str_sme then 0.15
                                       else if companyType = str_midsize then 0.10
                                       else 0.05);
                         totalCredit = totalInvestment * creditRate
                     in \<lparr> eligible = True, creditAmount = totalCredit,
                          reasons = Reason ''smart factory equipment investment <a> x 100 million won, <p>% credit''
                            [JNum (totalInvestment / 100000000), JNum (creditRate * 100)],
                          details = [(''total_investment'', JNum totalInvestment),
                                     (''credit_rate'', JNum creditRate),
                                     (''total_credit'', JNum totalCredit)] \<rparr>)"

subsection \<open>Research and development rules (15 to 17)\<close>

definition assessRndExpense ::
  "rule \<Rightarrow> company_profile \<Rightarrow> rnd_item list option \<Rightarrow> AssessmentResult" where
  "assessRndExpense rule company data =
     (let nodata = \<lparr> eligible = False, creditAmount = 0,
            reasons = Reason ''no research and development expense'' [], details = [] \<rparr>
      in case data of
        None \<Rightarrow> nodata
      | Some items \<Rightarrow>
         if items = [] then nodata
         else
           let relevantRnd = filter (\<lambda>rnd. truthy_member (rnd_type rnd)
                  [str_general_rnd, str_new_growth_rnd]) items
           in if relevantRnd = [] then
                \<lparr> eligible = False, creditAmount = 0,
                  reasons = Reason ''no research and development expense of the kinds concerned'' [],
                  details = [] \<rparr>
              else
                let companyType = company_type company;
                    totalCredit = foldl (\<lambda>totalCredit rnd.
                      let expense = or_num (expense_amount rnd) 0;
                          creditRate =
                            (if rnd_type rnd = Some str_general_rnd then
                               (if companyType = str_sme then fl 0.25
                                else if companyType = str_midsize then fl 0.15
                                else fl 0.05)
                             else if rnd_type rnd = Some str_new_growth_rnd then
                               (if companyType = str_sme then fl 0.30
                                else if companyType = str_midsize then fl 0.20
                                else fl 0.10)
                             else fl 0.05)
                      in fl (totalCredit + fl (expense * creditRate))) 0 relevantRnd
                in \<lparr> eligible = True, creditAmount = totalCredit,
                     reasons = Reason ''research and development tax credit applied'' [],
                     details = [(''total_credit'', JNum totalCredit)] \<rparr>)"

definition assessDesignExpense ::
  "rule \<Rightarrow> company_profile \<Rightarrow> rnd_item list option \<Rightarrow> AssessmentResult" where
  "assessDesignExpense rule company data =
     (let nodata = \<lparr> eligible = False, creditAmount = 0,
            reasons = Reason ''no design development expense (no data)'' [], details = [] \<rparr>
      in case data of
        None \<Rightarrow> nodata
      | Some items \<Rightarrow>
         if items = [] then nodata
         else
           let relevantRnd = filter (\<lambda>rnd. rnd_type rnd = Some str_design_rnd) items
           in if relevantRnd = [] then
                \<lparr> eligible = False, creditAmount = 0,
                  reasons = Reason ''no design development expense'' [], details = [] \<rparr>
              else
                let totalExpense = sum_expense relevantRnd
                in if totalExpense < 1000000 then
                     \<lparr> eligible = False, creditAmount = 0,
                       reasons = Reason ''development expense below 1 million won'' [],
                       details = [] \<rparr>
                   else
                     let companyType = company_type company;
                         creditRate = (if companyType = str_sme then 0.25
                                       else if companyType = str_midsize then 0.15
                                       else 0.05);
                         totalCredit = totalExpense * creditRate
                     in \<lparr> eligible = True, creditAmount = totalCredit,
                          reasons = Reason ''design development expense <a> x 10000 won, <p>% credit''
                            [JNum (totalExpense / 10000), JNum (creditRate * 100)],
                          details = [(''total_expense'', JNum totalExpense),
                                     (''credit_rate'', JNum creditRate),
                                     (''total_credit'', JNum totalCredit)] \<rparr>)"

definition assessNewTechnologyExpense ::
  "rule \<Rightarrow> company_profile \<Rightarrow> rnd_item list option \<Rightarrow> AssessmentResult" where
  "assessNewTechnologyExpense rule company data =
     (let nodata = \<lparr> eligible = False, creditAmount = 0,
            reasons = Reason ''no new technology development expense (no data)'' [],
            details = [] \<rparr>
      in case data of
        None \<Rightarrow> nodata
      | Some items \<Rightarrow>
         if items = [] then nodata
         else
           let relevantRnd = filter (\<lambda>rnd. rnd_type rnd = Some str_new_tech_rnd) items
           in if relevantRnd = [] then
                \<lparr> eligible = False, creditAmount = 0,
                  reasons = Reason ''no new technology development expense'' [], details = [] \<rparr>
              else
                let totalExpense = sum_expense relevantRnd
                in if totalExpense < 1000000 then
                     \<lparr> eligible = False, creditAmount = 0,
                       reasons = Reason ''development expense below 1 million won'' [],
                       details = [] \<rparr>
                   else
                     let companyType = company_type company;
                         creditRate = (if companyType = str_sme then 0.30
                                       else if companyType = str_midsize then 0.20
                                       else 0.10);
                         totalCredit = totalExpense * creditRate
                     in \<lparr> eligible = True, creditAmount = totalCredit,
                          reasons = Reason ''data, AI and IoT development expense <a> x 10000 won, <p>% credit''
                            [JNum (totalExpense / 10000), JNum (creditRate * 100)],
                          details = [(''total_expense'', JNum totalExpense),
                                     (''credit_rate'', JNum creditRate),
                                     (''total_credit'', JNum totalCredit)] \<rparr>)"

subsection \<open>Donation (18) and business vehicles (19)\<close>

definition assessDonation ::
  "rule \<Rightarrow> company_profile \<Rightarrow> other_data option \<Rightarrow> AssessmentResult" where
  "assessDonation rule company data =
     (let nodata = \<lparr> eligible = False, creditAmount = 0,
            reasons = Reason ''no donations made'' [], details = [] \<rparr>
      in case data of
        None \<Rightarrow> nodata
      | Some d \<Rightarrow>
         (case donation_amount d of
            None \<Rightarrow> nodata
          | Some donationAmount \<Rightarrow>
             if donationAmount = 0 then nodata
             else
               let donationType = or_str (donation_type d) str_designated_donation;
                   income = or_num (business_income d) 0;
                   creditRate = 0.15;
                   limitRate = (if donationType = str_statutory_donation then 1.0 else 0.30);
                   limit = income * limitRate;
                   eligibleAmount = min donationAmount limit;
                   totalCredit = eligibleAmount * creditRate
               in \<lparr> eligible = True, creditAmount = totalCredit,
                    reasons = Reason ''<donation type> <a> x 10000 won, 15% credit''
                      [JStr donationType, JNum (eligibleAmount / 10000)],
                    details = [(''donation_type'', JStr donationType),
                               (''donation_amount'', JNum donationAmount),
                               (''eligible_amount'', JNum eligibleAmount),
                               (''total_credit'', JNum totalCredit)] \<rparr>))"

definition assessBusinessVehicle ::
  "rule \<Rightarrow> company_profile \<Rightarrow> other_data option \<Rightarrow> AssessmentResult" where
  "assessBusinessVehicle rule company data =
     (let nodata = \<lparr> eligible = False, creditAmount = 0,
            reasons = Reason ''no business vehicles'' [], details = [] \<rparr>
      in case data of
        None \<Rightarrow> nodata
      | Some d \<Rightarrow>
         (case vehicle_count d of
            None \<Rightarrow> nodata
          | Some vehicleCount \<Rightarrow>
             if vehicleCount = 0 \<or> vehicleCount < 1 then nodata
             else
               let depreciation = or_num (depreciation_expense d) 0;
                   rental = or_num (rental_expense d) 0;
                   fuel = or_num (fuel_expense d) 0;
                   depreciationLimit = 8000000 * vehicleCount;
                   rentalLimit = 12000000 * vehicleCount;
                   eligibleDepreciation = min depreciation depreciationLimit;
                   eligibleRental = min rental rentalLimit;
                   eligibleFuel = fuel;
                   totalEligible = eligibleDepreciation + eligibleRental + eligibleFuel;
                   totalExpense = depreciation + rental + fuel;
                   limitExceeded = totalExpense - totalEligible
               in \<lparr> eligible = True, creditAmount = 0,
                    reasons = Reason ''<n> business vehicles, deductible amount <a> x 10000 won''
                      [JNum vehicleCount, JNum (totalEligible / 10000)],
                    details = [(''vehicle_count'', JNum vehicleCount),
                               (''depreciation'', JObj [(''expense'', JNum depreciation),
                                                        (''limit'', JNum depreciationLimit),
                                                        (''eligible'', JNum eligibleDepreciation)]),
                               (''rental'', JObj [(''expense'', JNum rental),
                                                  (''limit'', JNum rentalLimit),
                                                  (''eligible'', JNum eligibleRental)]),
                               (''fuel'', JObj [(''expense'', JNum fuel),
                                                (''eligible'', JNum eligibleFuel)]),
                               (''total_eligible'', JNum totalEligible),
                               (''limit_exceeded'', JNum limitExceeded)] \<rparr>))"

section \<open>Dispatcher and aggregation\<close>

definition unimplemented :: AssessmentResult where
  \<comment> \<open>the \<^verbatim>\<open>default\<close> branch of the switch\<close>
  "unimplemented = \<lparr> eligible = False, creditAmount = 0,
     reasons = Reason ''unimplemented rule'' [], details = [] \<rparr>"

definition assessRule :: "int \<Rightarrow> rule \<Rightarrow> AssessmentContext \<Rightarrow> AssessmentResult" where
  "assessRule currentYear rule ctx =
     (let company = ctx_company ctx;
          employmentData = ctx_employmentData ctx;
          investmentData = ctx_investmentData ctx;
          rndData = ctx_rndData ctx;
          otherData = ctx_otherData ctx;
          n = rule_id rule
      in if n = 1 then assessEmploymentIncrease rule company employmentData
         else if n = 2 then assessYouthEmployment rule company employmentData
         else if n = 3 then assessDisabledEmployment rule company employmentData
         else if n = 4 then assessCareerBreakWomen rule company employmentData
         else if n = 5 then assessSocialInsurance rule company employmentData
         else if n = 6 then assessSmeSpecialReduction rule company otherData
         else if n = 7 then assessStartupSmeReduction currentYear rule company otherData
         else if n = 8 then assessManufacturingRelocation rule company otherData
         else if n = 9 then assessSocialEnterpriseReduction rule company otherData
         else if n = 10 then assessYouthStartupReduction currentYear rule company otherData
         else if n = 11 then assessProductivityFacilities rule company investmentData
         else if n = 12 then assessEnergyEnvironmentFacilities rule company investmentData
         else if n = 13 then assessSafetyFacilities rule company investmentData
         else if n = 14 then assessSmartFactory rule company investmentData
         else if n = 15 then assessRndExpense rule company rndData
         else if n = 16 then assessDesignExpense rule company rndData
         else if n = 17 then assessNewTechnologyExpense rule company rndData
         else if n = 18 then assessDonation rule company otherData
         else if n = 19 then assessBusinessVehicle rule company otherData
         else unimplemented)"

text \<open>
  The loop of the \<^verbatim>\<open>/api/assess\<close> handler over \<^verbatim>\<open>Object.entries(taxRules)\<close>. The catalog
  \<^verbatim>\<open>tax_rules.json\<close> is a parameter: a list of (key, rule) entries in the order of the
  file. One row is pushed per rule, and the two accumulators are updated for an eligible
  outcome. The database reads and writes around the loop are not part of the model.
\<close>

record result_row =
  credit_rule_id :: int
  credit_rule_name :: string
  is_eligible :: int
  credit_amount :: rat
  row_reasons :: reason
  details_json :: "(string \<times> jv) list"

record assessment_state =
  results :: "result_row list"
  totalCreditAmount :: rat
  eligibleCount :: nat

definition result_of :: "rule \<Rightarrow> AssessmentResult \<Rightarrow> result_row" where
  "result_of rule assessment =
     \<lparr> credit_rule_id = rule_id rule,
       credit_rule_name = rule_name rule,
       is_eligible = (if eligible assessment then 1 else 0),
       credit_amount = creditAmount assessment,
       row_reasons = reasons assessment,
       details_json = details assessment \<rparr>"

fun assess_loop ::
  "int \<Rightarrow> AssessmentContext \<Rightarrow> (string \<times> rule) list \<Rightarrow> assessment_state \<Rightarrow> assessment_state"
where
  "assess_loop currentYear ctx [] st = st"
| "assess_loop currentYear ctx ((key, rule) # rest) st =
     (let assessment = assessRule currentYear rule ctx;
          st1 = st \<lparr> results := results st @ [result_of rule assessment] \<rparr>;
          st2 = (if eligible assessment
                 then st1 \<lparr> totalCreditAmount := totalCreditAmount st1 + creditAmount assessment,
                            eligibleCount := eligibleCount st1 + 1 \<rparr>
                 else st1)
      in assess_loop currentYear ctx rest st2)"

definition assess ::
  "int \<Rightarrow> (string \<times> rule) list \<Rightarrow> AssessmentContext \<Rightarrow> assessment_state" where
  "assess currentYear taxRules ctx =
     assess_loop currentYear ctx taxRules
       \<lparr> results = [], totalCreditAmount = 0, eligibleCount = 0 \<rparr>"

section \<open>Specification-side definitions and example inputs\<close>

definition absent_as_zero :: "rat option \<Rightarrow> rat" where
  \<comment> \<open>a numeric field that defaults to 0 when absent\<close>
  "absent_as_zero x = (case x of None \<Rightarrow> 0 | Some v \<Rightarrow> v)"

definition investment_items :: "AssessmentContext \<Rightarrow> investment_item list" where
  "investment_items ctx = (case ctx_investmentData ctx of None \<Rightarrow> [] | Some xs \<Rightarrow> xs)"

definition rnd_items :: "AssessmentContext \<Rightarrow> rnd_item list" where
  "rnd_items ctx = (case ctx_rndData ctx of None \<Rightarrow> [] | Some xs \<Rightarrow> xs)"

definition category_in :: "string option \<Rightarrow> string list \<Rightarrow> bool" where
  "category_in tag tags = (case tag of None \<Rightarrow> False | Some t \<Rightarrow> t \<in> set tags)"

definition facility_matches :: "int \<Rightarrow> investment_item \<Rightarrow> bool" where
  \<comment> \<open>the facility categories of rules 11 to 14\<close>
  "facility_matches n item =
     (if n = 11 then category_in (facility_type item)
                       [str_automation, str_info_system, str_measurement]
      else if n = 12 then category_in (facility_type item)
                       [str_energy_saving, str_greenhouse_gas, str_environment]
      else if n = 13 then category_in (facility_type item)
                       [str_fire_prevention, str_protective_gear, str_workplace_improvement]
      else if n = 14 then
        (case facility_type item of None \<Rightarrow> False | Some t \<Rightarrow> js_includes t str_smart_factory)
      else False)"

definition rnd_matches :: "int \<Rightarrow> rnd_item \<Rightarrow> bool" where
  \<comment> \<open>the research categories of rules 15 to 17\<close>
  "rnd_matches n rnd =
     (if n = 15 then category_in (rnd_type rnd) [str_general_rnd, str_new_growth_rnd]
      else if n = 16 then category_in (rnd_type rnd) [str_design_rnd]
      else if n = 17 then category_in (rnd_type rnd) [str_new_tech_rnd]
      else False)"

definition matching_total :: "int \<Rightarrow> AssessmentContext \<Rightarrow> rat" where
  \<comment> \<open>the sum of the amounts that match the category filter of rule \<open>n\<close>\<close>
  "matching_total n ctx =
     (if 11 \<le> n \<and> n \<le> 14 then
        sum_list (map (\<lambda>inv. absent_as_zero (investment_amount inv))
                      (filter (facility_matches n) (investment_items ctx)))
      else
        sum_list (map (\<lambda>rnd. absent_as_zero (expense_amount rnd))
                      (filter (rnd_matches n) (rnd_items ctx))))"

definition minimum_threshold :: "int \<Rightarrow> rat" where
  "minimum_threshold n =
     (if n = 14 then 100000000
      else if 11 \<le> n \<and> n \<le> 13 then 10000000
      else 1000000)"

definition rnd_category :: "rnd_item \<Rightarrow> string" where
  "rnd_category rnd = (case rnd_type rnd of None \<Rightarrow> [] | Some t \<Rightarrow> t)"

definition rnd_rate :: "string \<Rightarrow> string \<Rightarrow> rat" where
  \<comment> \<open>the rate of rule 15 for a category (general, otherwise new-growth) and a size class\<close>
  "rnd_rate category company_size =
     (if category = str_general_rnd then
        (if company_size = str_sme then 25 / 100 else if company_size = str_midsize then 15 / 100 else 5 / 100)
      else
        (if company_size = str_sme then 30 / 100 else if company_size = str_midsize then 20 / 100 else 10 / 100))"

definition sme_reduction_rate :: "string \<Rightarrow> rat" where
  \<comment> \<open>the reduction rate of rule 6 for an industry\<close>
  "sme_reduction_rate ind =
     (if ind \<in> set [str_manufacturing, str_mining, str_construction, str_wholesale, str_retail]
      then 10 / 100 else 5 / 100)"

definition fl_sum :: "rat list \<Rightarrow> rat" where
  \<comment> \<open>the sum of a list computed in binary64, from 0 and in list order\<close>
  "fl_sum xs = foldl (\<lambda>acc x. fl (acc + x)) 0 xs"

definition ten_percent_of_income :: "other_data \<Rightarrow> rat" where
  \<comment> \<open>10% of business income, as a binary64 product\<close>
  "ten_percent_of_income d = fl (absent_as_zero (business_income d) * fl (10 / 100))"

definition tax_liability_as_claimed :: "other_data \<Rightarrow> rat" where
  \<comment> \<open>the supplied calculated tax, or 10% of business income when it is absent\<close>
  "tax_liability_as_claimed d =
     (case calculated_tax d of
        None \<Rightarrow> ten_percent_of_income d
      | Some t \<Rightarrow> t)"

definition tax_liability :: "other_data \<Rightarrow> rat" where
  \<comment> \<open>the supplied calculated tax, or 10% of business income when it is absent or zero\<close>
  "tax_liability d =
     (case calculated_tax d of
        None \<Rightarrow> ten_percent_of_income d
      | Some t \<Rightarrow> if t = 0 then ten_percent_of_income d else t)"

definition has_business_income :: "AssessmentContext \<Rightarrow> bool" where
  "has_business_income ctx =
     (case ctx_otherData ctx of
        None \<Rightarrow> False
      | Some d \<Rightarrow> (case business_income d of None \<Rightarrow> False | Some v \<Rightarrow> v \<noteq> 0))"

definition nonneg :: "rat option \<Rightarrow> bool" where
  "nonneg x = (case x of None \<Rightarrow> True | Some v \<Rightarrow> 0 \<le> v)"

definition nonneg_employment :: "employment_data \<Rightarrow> bool" where
  "nonneg_employment d =
     (nonneg (employee_increase d) \<and> nonneg (youth_employees d) \<and>
      nonneg (disabled_employees d) \<and> nonneg (career_break_women d) \<and>
      nonneg (insurance_paid d))"

definition nonneg_other :: "other_data \<Rightarrow> bool" where
  "nonneg_other d =
     (nonneg (founder_age d) \<and> nonneg (donation_amount d) \<and> nonneg (business_income d) \<and>
      nonneg (calculated_tax d) \<and> nonneg (vehicle_count d) \<and>
      nonneg (depreciation_expense d) \<and> nonneg (rental_expense d) \<and>
      nonneg (fuel_expense d))"

definition nonneg_context :: "AssessmentContext \<Rightarrow> bool" where
  \<comment> \<open>every number supplied in the context is non-negative\<close>
  "nonneg_context ctx =
     ((case ctx_employmentData ctx of None \<Rightarrow> True | Some d \<Rightarrow> nonneg_employment d) \<and>
      list_all (\<lambda>inv. nonneg (investment_amount inv)) (investment_items ctx) \<and>
      list_all (\<lambda>rnd. nonneg (expense_amount rnd)) (rnd_items ctx) \<and>
      (case ctx_otherData ctx of None \<Rightarrow> True | Some d \<Rightarrow> nonneg_other d))"

definition is_whole :: "rat \<Rightarrow> bool" where
  "is_whole v = (of_int \<lfloor>v\<rfloor> = v)"

definition whole :: "rat option \<Rightarrow> bool" where
  "whole x = (case x of None \<Rightarrow> True | Some v \<Rightarrow> is_whole v)"

definition whole_counts :: "AssessmentContext \<Rightarrow> bool" where
  \<comment> \<open>the head counts of the employment bundle are whole numbers\<close>
  "whole_counts ctx =
     (case ctx_employmentData ctx of
        None \<Rightarrow> True
      | Some d \<Rightarrow> whole (employee_increase d) \<and> whole (youth_employees d) \<and>
                  whole (disabled_employees d) \<and> whole (career_break_women d))"

definition empty_employment :: employment_data where
  "empty_employment = \<lparr> employee_increase = None, youth_employees = None,
     disabled_employees = None, career_break_women = None, insurance_paid = None \<rparr>"

definition empty_other :: other_data where
  "empty_other = \<lparr> startup_date = None, is_youth_startup = None, founder_age = None,
     relocation_completed = None, certification = None, certification_type = None,
     donation_amount = None, donation_type = None, business_income = None,
     calculated_tax = None, vehicle_count = None, depreciation_expense = None,
     rental_expense = None, fuel_expense = None \<rparr>"

definition bare_context :: "company_profile \<Rightarrow> AssessmentContext" where
  \<comment> \<open>a context with every optional bundle missing\<close>
  "bare_context c = \<lparr> ctx_company = c, ctx_employmentData = None,
     ctx_investmentData = None, ctx_rndData = None, ctx_otherData = None \<rparr>"

definition blank_context :: "company_profile \<Rightarrow> AssessmentContext" where
  \<comment> \<open>a context with every bundle present and empty\<close>
  "blank_context c = \<lparr> ctx_company = c, ctx_employmentData = Some empty_employment,
     ctx_investmentData = Some [], ctx_rndData = Some [], ctx_otherData = Some empty_other \<rparr>"

definition str_large :: string where
  \<comment> \<open>U+B300 U+AE30 U+C5C5 (dae-gieop, large enterprise)\<close>
  "str_large = [CHR 0xEB, CHR 0x8C, CHR 0x80, CHR 0xEA, CHR 0xB8, CHR 0xB0,
                CHR 0xEC, CHR 0x97, CHR 0x85]"

definition sme_manufacturer :: company_profile where
  "sme_manufacturer = \<lparr> company_type = str_sme, industry = str_manufacturing,
     is_capital_area = 0 \<rparr>"

definition large_manufacturer :: company_profile where
  "large_manufacturer = \<lparr> company_type = str_large, industry = str_manufacturing,
     is_capital_area = 1 \<rparr>"

definition rule_n :: "int \<Rightarrow> rule" where
  "rule_n n = \<lparr> rule_id = n, rule_name = ''rule'' \<rparr>"

definition catalog19 :: "(string \<times> rule) list" where
  \<comment> \<open>a catalog with the nineteen ids in order; keys and names are placeholders\<close>
  "catalog19 = map (\<lambda>n. (''key'', rule_n n))
     [1, 2, 3, 4, 5, 6, 7, 8, 9, 10, 11, 12, 13, 14, 15, 16, 17, 18, 19]"

definition large_insured_context :: AssessmentContext where
  \<comment> \<open>a large company that paid social insurance contributions\<close>
  "large_insured_context = (bare_context large_manufacturer)
     \<lparr> ctx_employmentData := Some (empty_employment \<lparr> insurance_paid := Some 10000000 \<rparr>) \<rparr>"

definition vehicle_context :: AssessmentContext where
  \<comment> \<open>two vehicles: depreciation 20,000,000, rental 10,000,000, fuel 3,000,000\<close>
  "vehicle_context = (bare_context sme_manufacturer)
     \<lparr> ctx_otherData := Some (empty_other \<lparr> vehicle_count := Some 2,
          depreciation_expense := Some 20000000, rental_expense := Some 10000000,
          fuel_expense := Some 3000000 \<rparr>) \<rparr>"

definition startup_context :: AssessmentContext where
  \<comment> \<open>a company founded in 2021 with a calculated tax of 1,000,000\<close>
  "startup_context = (bare_context sme_manufacturer)
     \<lparr> ctx_otherData := Some (empty_other \<lparr> startup_date := Some ''2021-05-01'',
          calculated_tax := Some 1000000 \<rparr>) \<rparr>"


definition social_insurance_data :: employment_data where
  \<comment> \<open>contributions of 10,000,000 with two more employees and one more youth employee\<close>
  "social_insurance_data = empty_employment \<lparr> employee_increase := Some 2,
     youth_employees := Some 1, insurance_paid := Some 10000000 \<rparr>"

definition social_insurance_example :: AssessmentContext where
  "social_insurance_example =
     (bare_context sme_manufacturer) \<lparr> ctx_employmentData := Some social_insurance_data \<rparr>"

definition fractional_context :: AssessmentContext where
  \<comment> \<open>contributions of 10,000,001 with three more employees\<close>
  "fractional_context = (bare_context sme_manufacturer)
     \<lparr> ctx_employmentData := Some (empty_employment \<lparr> employee_increase := Some 3,
          insurance_paid := Some 10000001 \<rparr>) \<rparr>"

definition shrinking_context :: AssessmentContext where
  \<comment> \<open>contributions of 10,000,000 in a year in which the headcount fell by one\<close>
  "shrinking_context = (bare_context sme_manufacturer)
     \<lparr> ctx_employmentData := Some (empty_employment \<lparr> employee_increase := Some (- 1),
          insurance_paid := Some 10000000 \<rparr>) \<rparr>"

definition small_rnd_context :: AssessmentContext where
  \<comment> \<open>one general research item of 100\<close>
  "small_rnd_context = (bare_context sme_manufacturer)
     \<lparr> ctx_rndData := Some [\<lparr> rnd_type = Some str_general_rnd, expense_amount = Some 100 \<rparr>] \<rparr>"

definition mixed_rnd_context :: AssessmentContext where
  \<comment> \<open>a general item of 10,000,000 and a new-growth item of 5,000,000\<close>
  "mixed_rnd_context = (bare_context sme_manufacturer)
     \<lparr> ctx_rndData := Some [\<lparr> rnd_type = Some str_general_rnd, expense_amount = Some 10000000 \<rparr>,
                             \<lparr> rnd_type = Some str_new_growth_rnd, expense_amount = Some 5000000 \<rparr>] \<rparr>"

definition small_investment_context :: AssessmentContext where
  \<comment> \<open>automation equipment for 9,999,999 and a smart factory line for 50,000,000\<close>
  "small_investment_context = (bare_context sme_manufacturer)
     \<lparr> ctx_investmentData := Some
         [\<lparr> facility_type = Some str_automation, investment_amount = Some 9999999 \<rparr>,
          \<lparr> facility_type = Some str_smart_factory, investment_amount = Some 50000000 \<rparr>] \<rparr>"

definition odd_rnd_context :: AssessmentContext where
  \<comment> \<open>one new-growth item of 1,000,003\<close>
  "odd_rnd_context = (bare_context sme_manufacturer)
     \<lparr> ctx_rndData := Some [\<lparr> rnd_type = Some str_new_growth_rnd,
                               expense_amount = Some 1000003 \<rparr>] \<rparr>"

definition untaxed_data :: other_data where
  \<comment> \<open>business income 1,234,567 and no calculated tax\<close>
  "untaxed_data = empty_other \<lparr> business_income := Some 1234567 \<rparr>"

definition untaxed_context :: AssessmentContext where
  "untaxed_context = (bare_context sme_manufacturer) \<lparr> ctx_otherData := Some untaxed_data \<rparr>"

definition zero_tax_data :: other_data where
  \<comment> \<open>business income 1,000,000 with a calculated tax of 0 supplied\<close>
  "zero_tax_data = empty_other \<lparr> business_income := Some 1000000, calculated_tax := Some 0 \<rparr>"

definition zero_tax_context :: AssessmentContext where
  "zero_tax_context = (bare_context sme_manufacturer) \<lparr> ctx_otherData := Some zero_tax_data \<rparr>"

definition taxed_data :: other_data where
  \<comment> \<open>business income 1,000,000 with a calculated tax of 80,000 supplied\<close>
  "taxed_data = empty_other \<lparr> business_income := Some 1000000, calculated_tax := Some 80000 \<rparr>"

definition taxed_context :: AssessmentContext where
  "taxed_context = (bare_context sme_manufacturer) \<lparr> ctx_otherData := Some taxed_data \<rparr>"

definition negative_donation_data :: other_data where
  \<comment> \<open>a donation amount of -100 and no business income\<close>
  "negative_donation_data = empty_other \<lparr> donation_amount := Some (- 100) \<rparr>"

definition negative_donation_context :: AssessmentContext where
  "negative_donation_context =
     (bare_context sme_manufacturer) \<lparr> ctx_otherData := Some negative_donation_data \<rparr>"

definition donation_data :: other_data where
  \<comment> \<open>a donation of 500,000 and no business income\<close>
  "donation_data = empty_other \<lparr> donation_amount := Some 500000 \<rparr>"

definition donation_context :: AssessmentContext where
  "donation_context = (bare_context sme_manufacturer) \<lparr> ctx_otherData := Some donation_data \<rparr>"

section \<open>Shared lemmas\<close>

lemmas evaluator_defs =
  assessEmploymentIncrease_def assessYouthEmployment_def assessDisabledEmployment_def
  assessCareerBreakWomen_def assessSocialInsurance_def assessSmeSpecialReduction_def
  assessStartupSmeReduction_def assessManufacturingRelocation_def
  assessSocialEnterpriseReduction_def assessYouthStartupReduction_def
  assessProductivityFacilities_def assessEnergyEnvironmentFacilities_def
  assessSafetyFacilities_def assessSmartFactory_def assessRndExpense_def
  assessDesignExpense_def assessNewTechnologyExpense_def assessDonation_def
  assessBusinessVehicle_def

lemmas example_defs = bare_context_def blank_context_def empty_employment_def empty_other_def
  sme_manufacturer_def large_manufacturer_def rule_n_def str_sme_def str_large_def
  str_manufacturing_def str_midsize_def

lemmas parse_defs = parseInt_def split_first_def digit_value_def is_radix_digit_def
  is_ws1_def is_ws2_def is_ws3_def years_over_def num_of_year_def

lemma or_num_zero: "or_num x 0 = absent_as_zero x"
  by (simp add: or_num_def absent_as_zero_def split: option.split)

lemma employment_ineligible_zero:
  "\<not> eligible (assessEmploymentIncrease rule company data) \<longrightarrow>
     creditAmount (assessEmploymentIncrease rule company data) = 0"
  "\<not> eligible (assessYouthEmployment rule company data) \<longrightarrow>
     creditAmount (assessYouthEmployment rule company data) = 0"
  "\<not> eligible (assessDisabledEmployment rule company data) \<longrightarrow>
     creditAmount (assessDisabledEmployment rule company data) = 0"
  "\<not> eligible (assessCareerBreakWomen rule company data) \<longrightarrow>
     creditAmount (assessCareerBreakWomen rule company data) = 0"
  "\<not> eligible (assessSocialInsurance rule company data) \<longrightarrow>
     creditAmount (assessSocialInsurance rule company data) = 0"
  by (simp_all add: assessEmploymentIncrease_def assessYouthEmployment_def
      assessDisabledEmployment_def assessCareerBreakWomen_def assessSocialInsurance_def
      Let_def split: option.split)

lemma reduction_ineligible_zero:
  "\<not> eligible (assessSmeSpecialReduction rule company odata) \<longrightarrow>
     creditAmount (assessSmeSpecialReduction rule company odata) = 0"
  "\<not> eligible (assessStartupSmeReduction cy rule company odata) \<longrightarrow>
     creditAmount (assessStartupSmeReduction cy rule company odata) = 0"
  "\<not> eligible (assessManufacturingRelocation rule company odata) \<longrightarrow>
     creditAmount (assessManufacturingRelocation rule company odata) = 0"
  "\<not> eligible (assessSocialEnterpriseReduction rule company odata) \<longrightarrow>
     creditAmount (assessSocialEnterpriseReduction rule company odata) = 0"
  "\<not> eligible (assessYouthStartupReduction cy rule company odata) \<longrightarrow>
     creditAmount (assessYouthStartupReduction cy rule company odata) = 0"
  "\<not> eligible (assessDonation rule company odata) \<longrightarrow>
     creditAmount (assessDonation rule company odata) = 0"
  by (simp_all add: assessSmeSpecialReduction_def assessStartupSmeReduction_def
      assessManufacturingRelocation_def assessSocialEnterpriseReduction_def
      assessYouthStartupReduction_def assessDonation_def Let_def split: option.split)

lemma investment_ineligible_zero:
  "\<not> eligible (assessProductivityFacilities rule company idata) \<longrightarrow>
     creditAmount (assessProductivityFacilities rule company idata) = 0"
  "\<not> eligible (assessEnergyEnvironmentFacilities rule company idata) \<longrightarrow>
     creditAmount (assessEnergyEnvironmentFacilities rule company idata) = 0"
  "\<not> eligible (assessSafetyFacilities rule company idata) \<longrightarrow>
     creditAmount (assessSafetyFacilities rule company idata) = 0"
  "\<not> eligible (assessSmartFactory rule company idata) \<longrightarrow>
     creditAmount (assessSmartFactory rule company idata) = 0"
  by (simp_all add: assessProductivityFacilities_def assessEnergyEnvironmentFacilities_def
      assessSafetyFacilities_def assessSmartFactory_def Let_def split: option.split)

lemma rnd_ineligible_zero:
  "\<not> eligible (assessRndExpense rule company rdata) \<longrightarrow>
     creditAmount (assessRndExpense rule company rdata) = 0"
  "\<not> eligible (assessDesignExpense rule company rdata) \<longrightarrow>
     creditAmount (assessDesignExpense rule company rdata) = 0"
  "\<not> eligible (assessNewTechnologyExpense rule company rdata) \<longrightarrow>
     creditAmount (assessNewTechnologyExpense rule company rdata) = 0"
  by (simp_all add: assessRndExpense_def assessDesignExpense_def
      assessNewTechnologyExpense_def Let_def split: option.split)

lemma vehicle_credit_zero:
  "creditAmount (assessBusinessVehicle rule company odata) = 0"
  by (simp add: assessBusinessVehicle_def Let_def split: option.split)

lemma assess_loop_results:
  "results (assess_loop cy ctx rs st) =
     results st @ map (\<lambda>(key, rule). result_of rule (assessRule cy rule ctx)) rs"
  by (induction rs arbitrary: st) (auto simp: Let_def)



lemma assess_results:
  "results (assess cy rs ctx) = map (\<lambda>(key, rule). result_of rule (assessRule cy rule ctx)) rs"
  by (simp add: assess_def assess_loop_results)

lemma missing_as_empty_employment:
  "assessEmploymentIncrease rule c None = assessEmploymentIncrease rule c (Some empty_employment)"
  "assessYouthEmployment rule c None = assessYouthEmployment rule c (Some empty_employment)"
  "assessDisabledEmployment rule c None = assessDisabledEmployment rule c (Some empty_employment)"
  "assessCareerBreakWomen rule c None = assessCareerBreakWomen rule c (Some empty_employment)"
  "assessSocialInsurance rule c None = assessSocialInsurance rule c (Some empty_employment)"
  by (simp_all add: assessEmploymentIncrease_def assessYouthEmployment_def
      assessDisabledEmployment_def assessCareerBreakWomen_def assessSocialInsurance_def
      Let_def empty_employment_def or_num_def)

lemma missing_as_empty_other:
  "assessSmeSpecialReduction rule c None = assessSmeSpecialReduction rule c (Some empty_other)"
  "assessStartupSmeReduction cy rule c None =
     assessStartupSmeReduction cy rule c (Some empty_other)"
  "assessManufacturingRelocation rule c None =
     assessManufacturingRelocation rule c (Some empty_other)"
  "assessSocialEnterpriseReduction rule c None =
     assessSocialEnterpriseReduction rule c (Some empty_other)"
  "assessYouthStartupReduction cy rule c None =
     assessYouthStartupReduction cy rule c (Some empty_other)"
  "assessDonation rule c None = assessDonation rule c (Some empty_other)"
  "assessBusinessVehicle rule c None = assessBusinessVehicle rule c (Some empty_other)"
  by (simp_all add: assessSmeSpecialReduction_def assessStartupSmeReduction_def
      assessManufacturingRelocation_def assessSocialEnterpriseReduction_def
      assessYouthStartupReduction_def assessDonation_def assessBusinessVehicle_def
      Let_def empty_other_def truthy_bool_def)

lemma missing_as_empty_lists:
  "assessProductivityFacilities rule c None = assessProductivityFacilities rule c (Some [])"
  "assessEnergyEnvironmentFacilities rule c None =
     assessEnergyEnvironmentFacilities rule c (Some [])"
  "assessSafetyFacilities rule c None = assessSafetyFacilities rule c (Some [])"
  "assessSmartFactory rule c None = assessSmartFactory rule c (Some [])"
  "assessRndExpense rule c None = assessRndExpense rule c (Some [])"
  "assessDesignExpense rule c None = assessDesignExpense rule c (Some [])"
  "assessNewTechnologyExpense rule c None = assessNewTechnologyExpense rule c (Some [])"
  by (simp_all add: assessProductivityFacilities_def assessEnergyEnvironmentFacilities_def
      assessSafetyFacilities_def assessSmartFactory_def assessRndExpense_def
      assessDesignExpense_def assessNewTechnologyExpense_def Let_def)

lemma bare_ineligible:
  "\<not> eligible (assessEmploymentIncrease rule c None)"
  "\<not> eligible (assessYouthEmployment rule c None)"
  "\<not> eligible (assessDisabledEmployment rule c None)"
  "\<not> eligible (assessCareerBreakWomen rule c None)"
  "\<not> eligible (assessSocialInsurance rule c None)"
  "\<not> eligible (assessSmeSpecialReduction rule c None)"
  "\<not> eligible (assessStartupSmeReduction cy rule c None)"
  "\<not> eligible (assessManufacturingRelocation rule c None)"
  "\<not> eligible (assessSocialEnterpriseReduction rule c None)"
  "\<not> eligible (assessYouthStartupReduction cy rule c None)"
  "\<not> eligible (assessProductivityFacilities rule c None)"
  "\<not> eligible (assessEnergyEnvironmentFacilities rule c None)"
  "\<not> eligible (assessSafetyFacilities rule c None)"
  "\<not> eligible (assessSmartFactory rule c None)"
  "\<not> eligible (assessRndExpense rule c None)"
  "\<not> eligible (assessDesignExpense rule c None)"
  "\<not> eligible (assessNewTechnologyExpense rule c None)"
  "\<not> eligible (assessDonation rule c None)"
  "\<not> eligible (assessBusinessVehicle rule c None)"
  by (simp_all add: evaluator_defs Let_def)

lemma bare_same_as_blank:
  "assessRule cy rule (bare_context c) = assessRule cy rule (blank_context c)"
  by (simp add: assessRule_def Let_def bare_context_def blank_context_def
      missing_as_empty_employment missing_as_empty_other missing_as_empty_lists)

lemma bare_never_eligible:
  "\<not> eligible (assessRule cy rule (bare_context c))"
  by (simp add: assessRule_def Let_def unimplemented_def bare_context_def bare_ineligible)

lemma outside_range_default:
  "rule_id rule < 1 \<or> 19 < rule_id rule \<Longrightarrow> assessRule cy rule ctx = unimplemented"
  by (auto simp: assessRule_def Let_def)

lemma clock_free_rule:
  "rule_id rule \<noteq> 7 \<Longrightarrow> rule_id rule \<noteq> 10 \<Longrightarrow>
     assessRule y1 rule ctx = assessRule y2 rule ctx"
  by (simp add: assessRule_def Let_def)

lemma startup_2026: "eligible (assessRule 2026 (rule_n 7) startup_context)"
  by (simp add: assessRule_def assessStartupSmeReduction_def Let_def startup_context_def
      example_defs parse_defs or_num_def truthy_bool_def)

lemma startup_2027: "\<not> eligible (assessRule 2027 (rule_n 7) startup_context)"
  by (simp add: assessRule_def assessStartupSmeReduction_def Let_def startup_context_def
      example_defs parse_defs or_num_def truthy_bool_def)

section \<open>The dispatcher\<close>

text \<open>
  Claim C1. For every rule definition and every evaluation context, the outcome returned
  by the dispatcher has credit amount 0 whenever it is not eligible; and for rule id 19
  (the business vehicle limit check) the credit amount is 0 in every outcome, eligible or
  not.
\<close>

theorem assessRule_ineligible_credit_zero:
  "(\<not> eligible (assessRule currentYear rule ctx) \<longrightarrow>
      creditAmount (assessRule currentYear rule ctx) = 0)
   \<and> (rule_id rule = 19 \<longrightarrow> creditAmount (assessRule currentYear rule ctx) = 0)"
  by (simp add: assessRule_def Let_def unimplemented_def employment_ineligible_zero
      reduction_ineligible_zero investment_ineligible_zero rnd_ineligible_zero
      vehicle_credit_zero)

text \<open>
  Rule 5 on a large company is not eligible and credits 0; rule 19 on a company with two
  vehicles is eligible and credits 0.
\<close>

theorem assessRule_ineligible_credit_zero_witness:
  "\<not> eligible (assessRule 2026 (rule_n 5) large_insured_context)
   \<and> creditAmount (assessRule 2026 (rule_n 5) large_insured_context) = 0
   \<and> rule_id (rule_n 19) = 19
   \<and> eligible (assessRule 2026 (rule_n 19) vehicle_context)
   \<and> creditAmount (assessRule 2026 (rule_n 19) vehicle_context) = 0"
  using assessRule_ineligible_credit_zero [of 2026 "rule_n 5" large_insured_context]
        assessRule_ineligible_credit_zero [of 2026 "rule_n 19" vehicle_context]
  by (simp add: assessRule_def assessSocialInsurance_def assessBusinessVehicle_def Let_def
      large_insured_context_def vehicle_context_def example_defs)

text \<open>
  Claim C3. For every rule whose id is outside 1 to 19 and every evaluation context the
  dispatcher returns the outcome with eligible false, credit amount 0, the fixed
  unimplemented-rule reason and empty details. The dispatcher is a total function of
  well-typed input: it has no failing branch, a context whose optional bundles are all
  missing is assessed exactly as the context whose bundles are present and empty, and no
  rule is eligible on it.
\<close>

theorem assessRule_unimplemented:
  "(rule_id rule < 1 \<or> 19 < rule_id rule \<longrightarrow>
      assessRule currentYear rule ctx =
        \<lparr> eligible = False, creditAmount = 0,
          reasons = Reason ''unimplemented rule'' [], details = [] \<rparr>)
   \<and> assessRule currentYear rule (bare_context c) = assessRule currentYear rule (blank_context c)
   \<and> \<not> eligible (assessRule currentYear rule (bare_context c))"
proof (intro conjI impI)
  assume "rule_id rule < 1 \<or> 19 < rule_id rule"
  then show "assessRule currentYear rule ctx =
        \<lparr> eligible = False, creditAmount = 0,
          reasons = Reason ''unimplemented rule'' [], details = [] \<rparr>"
    using outside_range_default [of rule currentYear ctx] by (simp add: unimplemented_def)
next
  show "assessRule currentYear rule (bare_context c) =
        assessRule currentYear rule (blank_context c)"
    by (rule bare_same_as_blank)
next
  show "\<not> eligible (assessRule currentYear rule (bare_context c))"
    by (rule bare_never_eligible)
qed

text \<open>Rule ids 20 and 0 on a context that makes rule 19 eligible.\<close>

theorem assessRule_unimplemented_witness:
  "(rule_id (rule_n 20) < 1 \<or> 19 < rule_id (rule_n 20))
   \<and> assessRule 2026 (rule_n 20) vehicle_context =
        \<lparr> eligible = False, creditAmount = 0,
          reasons = Reason ''unimplemented rule'' [], details = [] \<rparr>
   \<and> (rule_id (rule_n 0) < 1 \<or> 19 < rule_id (rule_n 0))
   \<and> assessRule 2026 (rule_n 0) vehicle_context =
        \<lparr> eligible = False, creditAmount = 0,
          reasons = Reason ''unimplemented rule'' [], details = [] \<rparr>"
  using assessRule_unimplemented [of "rule_n 20" 2026 vehicle_context]
        assessRule_unimplemented [of "rule_n 0" 2026 vehicle_context]
  by (simp add: rule_n_def)

section \<open>The aggregation loop\<close>



text \<open>
  Claim C4, as stated, fails: the outcome list depends on the calendar year that rules 7
  and 10 read from the system clock. For a company founded in 2021 the same request gives
  an eligible rule 7 in 2026 and an ineligible one in 2027.
\<close>

theorem assess_clock_counterexample:
  "results (assess 2026 catalog19 startup_context) \<noteq>
     results (assess 2027 catalog19 startup_context)
   \<and> is_eligible (results (assess 2026 catalog19 startup_context) ! 6) = 1
   \<and> is_eligible (results (assess 2027 catalog19 startup_context) ! 6) = 0"
proof -
  have a: "results (assess 2026 catalog19 startup_context) ! 6 =
             result_of (rule_n 7) (assessRule 2026 (rule_n 7) startup_context)"
    by (simp add: assess_results catalog19_def)
  have b: "results (assess 2027 catalog19 startup_context) ! 6 =
             result_of (rule_n 7) (assessRule 2027 (rule_n 7) startup_context)"
    by (simp add: assess_results catalog19_def)
  have c: "is_eligible (results (assess 2026 catalog19 startup_context) ! 6) = 1"
    using startup_2026 by (simp add: a result_of_def)
  have d: "is_eligible (results (assess 2027 catalog19 startup_context) ! 6) = 0"
    using startup_2027 by (simp add: b result_of_def)
  from c d have "results (assess 2026 catalog19 startup_context) \<noteq>
                 results (assess 2027 catalog19 startup_context)"
    by auto
  with c d show ?thesis by simp
qed

text \<open>
  Claim C4, amended. The outcome list is a function of the catalog, the evaluation context
  and the calendar year of the system clock, and of nothing else. Only rules 7 and 10
  read the clock: every other rule returns the same outcome for every clock year, so two
  runs on identical input give lists of the same length that agree at every position
  whose rule is neither 7 nor 10 (and agree everywhere when the two runs fall in the same
  calendar year).
\<close>

theorem assess_clock_dependence:
  "(rule_id rule \<noteq> 7 \<and> rule_id rule \<noteq> 10 \<longrightarrow>
      assessRule y1 rule ctx = assessRule y2 rule ctx)
   \<and> length (results (assess y1 taxRules ctx)) = length (results (assess y2 taxRules ctx))
   \<and> (\<forall>i < length taxRules.
         rule_id (snd (taxRules ! i)) \<noteq> 7 \<and> rule_id (snd (taxRules ! i)) \<noteq> 10 \<longrightarrow>
         results (assess y1 taxRules ctx) ! i = results (assess y2 taxRules ctx) ! i)"
proof (intro conjI impI allI)
  assume "rule_id rule \<noteq> 7 \<and> rule_id rule \<noteq> 10"
  then show "assessRule y1 rule ctx = assessRule y2 rule ctx"
    by (simp add: clock_free_rule)
next
  show "length (results (assess y1 taxRules ctx)) = length (results (assess y2 taxRules ctx))"
    by (simp add: assess_results)
next
  fix i
  assume i: "i < length taxRules"
    and r: "rule_id (snd (taxRules ! i)) \<noteq> 7 \<and> rule_id (snd (taxRules ! i)) \<noteq> 10"
  obtain k rl where kr: "taxRules ! i = (k, rl)" by (cases "taxRules ! i")
  with r have "assessRule y1 rl ctx = assessRule y2 rl ctx"
    by (simp add: clock_free_rule)
  with i kr show "results (assess y1 taxRules ctx) ! i = results (assess y2 taxRules ctx) ! i"
    by (simp add: assess_results)
qed

text \<open>Rule 5, at position 4 of the nineteen-rule catalog, in 2026 and in 2027.\<close>

theorem assess_clock_dependence_witness:
  "rule_id (rule_n 5) \<noteq> 7 \<and> rule_id (rule_n 5) \<noteq> 10
   \<and> assessRule 2026 (rule_n 5) social_insurance_example =
       assessRule 2027 (rule_n 5) social_insurance_example
   \<and> (4::nat) < length catalog19
   \<and> rule_id (snd (catalog19 ! 4)) \<noteq> 7 \<and> rule_id (snd (catalog19 ! 4)) \<noteq> 10
   \<and> results (assess 2026 catalog19 social_insurance_example) ! 4 =
       results (assess 2027 catalog19 social_insurance_example) ! 4
   \<and> creditAmount (assessRule 2026 (rule_n 5) social_insurance_example) = 2500000"
  using assess_clock_dependence [of "rule_n 5" 2026 social_insurance_example 2027 catalog19]
  by (simp add: catalog19_def rule_n_def assessRule_def assessSocialInsurance_def Let_def
      social_insurance_example_def social_insurance_data_def example_defs or_num_def)

section \<open>Single rules\<close>

text \<open>
  Claim C5. Rule 5 (social insurance): a company that is not classified small-medium is
  not eligible, whatever the other inputs; a small-medium company with insurance paid of
  at least 1 is eligible with credit amount min(insurance paid x 0.25, 1,000,000 x
  (employee increase + youth employees)), where an absent count is 0; in particular
  insurance paid 10,000,000 with employee increase 2 and youth employees 1 gives
  2,500,000.
\<close>

theorem social_insurance_credit:
  "rule_id rule = 5 \<Longrightarrow>
     (company_type (ctx_company ctx) \<noteq> str_sme \<longrightarrow>
        \<not> eligible (assessRule currentYear rule ctx))
   \<and> (company_type (ctx_company ctx) = str_sme \<and> ctx_employmentData ctx = Some d
        \<and> insurance_paid d = Some paid \<and> 1 \<le> paid \<longrightarrow>
         eligible (assessRule currentYear rule ctx)
         \<and> creditAmount (assessRule currentYear rule ctx) =
             min (paid * (25 / 100))
                 (1000000 * (absent_as_zero (employee_increase d)
                             + absent_as_zero (youth_employees d))))
   \<and> creditAmount (assessRule currentYear (rule_n 5) social_insurance_example) = 2500000"
  by (auto simp: assessRule_def assessSocialInsurance_def Let_def or_num_zero min_def
      social_insurance_example_def social_insurance_data_def example_defs absent_as_zero_def)

text \<open>A large company with contributions paid, and the small-medium example.\<close>

theorem social_insurance_credit_witness:
  "rule_id (rule_n 5) = 5
   \<and> company_type (ctx_company large_insured_context) \<noteq> str_sme
   \<and> \<not> eligible (assessRule 2026 (rule_n 5) large_insured_context)
   \<and> company_type (ctx_company social_insurance_example) = str_sme
   \<and> eligible (assessRule 2026 (rule_n 5) social_insurance_example)
   \<and> creditAmount (assessRule 2026 (rule_n 5) social_insurance_example) = 2500000"
  using social_insurance_credit [where rule = "rule_n 5" and ctx = large_insured_context
          and currentYear = 2026]
        social_insurance_credit [where rule = "rule_n 5" and ctx = social_insurance_example
          and d = social_insurance_data and paid = 10000000 and currentYear = 2026]
  by (simp add: large_insured_context_def social_insurance_example_def
      social_insurance_data_def example_defs)

subsection \<open>Minimum thresholds (rules 11 to 17)\<close>

lemma foldl_plus_sum_list:
  "foldl (\<lambda>s x. s + f x) a xs = a + sum_list (map f xs)"
  for a :: rat
  by (induction xs arbitrary: a) (simp_all add: add.assoc)

lemma sum_investment_sum_list:
  "sum_investment xs = sum_list (map (\<lambda>i. absent_as_zero (investment_amount i)) xs)"
  by (simp add: sum_investment_def foldl_plus_sum_list or_num_zero)

lemma sum_expense_sum_list:
  "sum_expense xs = sum_list (map (\<lambda>i. absent_as_zero (expense_amount i)) xs)"
  by (simp add: sum_expense_def foldl_plus_sum_list or_num_zero)

lemmas tag_defs = str_automation_def str_info_system_def str_measurement_def
  str_energy_saving_def str_greenhouse_gas_def str_environment_def
  str_fire_prevention_def str_protective_gear_def str_workplace_improvement_def
  str_smart_factory_def str_general_rnd_def str_new_growth_rnd_def
  str_design_rnd_def str_new_tech_rnd_def

lemma truthy_member_category_in:
  "[] \<notin> set tags \<Longrightarrow> truthy_member tag tags = category_in tag tags"
  by (auto simp: truthy_member_def category_in_def split: option.split)

lemma facility_filters:
  "(\<lambda>inv. truthy_member (facility_type inv) [str_automation, str_info_system, str_measurement])
     = facility_matches 11"
  "(\<lambda>inv. truthy_member (facility_type inv)
       [str_energy_saving, str_greenhouse_gas, str_environment]) = facility_matches 12"
  "(\<lambda>inv. truthy_member (facility_type inv)
       [str_fire_prevention, str_protective_gear, str_workplace_improvement])
     = facility_matches 13"
  "(\<lambda>inv. case facility_type inv of None \<Rightarrow> False
            | Some ft \<Rightarrow> ft \<noteq> [] \<and> js_includes ft str_smart_factory) = facility_matches 14"
  by (auto simp: fun_eq_iff facility_matches_def truthy_member_category_in tag_defs
      split: option.split)

lemma rnd_filters:
  "(\<lambda>rnd. truthy_member (rnd_type rnd) [str_general_rnd, str_new_growth_rnd]) = rnd_matches 15"
  "(\<lambda>rnd. rnd_type rnd = Some str_design_rnd) = rnd_matches 16"
  "(\<lambda>rnd. rnd_type rnd = Some str_new_tech_rnd) = rnd_matches 17"
  by (auto simp: fun_eq_iff rnd_matches_def truthy_member_category_in category_in_def tag_defs
      split: option.split)

lemma investment_threshold:
  "eligible (assessProductivityFacilities rule c data) \<Longrightarrow>
     10000000 \<le> sum_investment (filter (facility_matches 11)
                    (case data of None \<Rightarrow> [] | Some xs \<Rightarrow> xs))"
  "eligible (assessEnergyEnvironmentFacilities rule c data) \<Longrightarrow>
     10000000 \<le> sum_investment (filter (facility_matches 12)
                    (case data of None \<Rightarrow> [] | Some xs \<Rightarrow> xs))"
  "eligible (assessSafetyFacilities rule c data) \<Longrightarrow>
     10000000 \<le> sum_investment (filter (facility_matches 13)
                    (case data of None \<Rightarrow> [] | Some xs \<Rightarrow> xs))"
  "eligible (assessSmartFactory rule c data) \<Longrightarrow>
     100000000 \<le> sum_investment (filter (facility_matches 14)
                    (case data of None \<Rightarrow> [] | Some xs \<Rightarrow> xs))"
  unfolding assessProductivityFacilities_def assessEnergyEnvironmentFacilities_def
      assessSafetyFacilities_def assessSmartFactory_def facility_filters
  by (auto simp: Let_def split: option.splits if_splits)

lemma expense_threshold:
  "eligible (assessDesignExpense rule c data) \<Longrightarrow>
     1000000 \<le> sum_expense (filter (rnd_matches 16) (case data of None \<Rightarrow> [] | Some xs \<Rightarrow> xs))"
  "eligible (assessNewTechnologyExpense rule c data) \<Longrightarrow>
     1000000 \<le> sum_expense (filter (rnd_matches 17) (case data of None \<Rightarrow> [] | Some xs \<Rightarrow> xs))"
  unfolding assessDesignExpense_def assessNewTechnologyExpense_def rnd_filters
  by (auto simp: Let_def split: option.splits if_splits)

text \<open>
  Claim C6, as stated, fails for rule 15: \<^verbatim>\<open>assessRndExpense\<close> has no minimum threshold. A
  small-medium company with one general research item of 100 is eligible although the
  matching sum, 100, is below 1,000,000.
\<close>

theorem below_threshold_counterexample:
  "rule_id (rule_n 15) = 15
   \<and> matching_total 15 small_rnd_context = 100
   \<and> matching_total 15 small_rnd_context < minimum_threshold 15
   \<and> eligible (assessRule 2026 (rule_n 15) small_rnd_context)"
  by (simp add: matching_total_def minimum_threshold_def rnd_items_def rnd_matches_def
      category_in_def absent_as_zero_def small_rnd_context_def example_defs
      assessRule_def assessRndExpense_def Let_def truthy_member_def
      str_general_rnd_def str_new_growth_rnd_def)

text \<open>
  Claim C6, amended. Every facility-investment evaluator (rules 11 to 14) and the two
  single-category development-expense evaluators (rules 16 and 17) return eligible false
  whenever the sum of the amounts that match the category filter of the rule is below the
  minimum threshold of the rule: 10,000,000 for rules 11 to 13, 100,000,000 for rule 14
  and 1,000,000 for rules 16 and 17. Rule 15 has no minimum threshold.
\<close>

theorem below_threshold_ineligible:
  "rule_id rule \<in> {11, 12, 13, 14, 16, 17}
   \<and> matching_total (rule_id rule) ctx < minimum_threshold (rule_id rule)
   \<longrightarrow> \<not> eligible (assessRule currentYear rule ctx)"
proof (intro impI, elim conjE)
  assume n: "rule_id rule \<in> {11, 12, 13, 14, 16, 17}"
    and lt: "matching_total (rule_id rule) ctx < minimum_threshold (rule_id rule)"
  show "\<not> eligible (assessRule currentYear rule ctx)"
  proof
    assume e: "eligible (assessRule currentYear rule ctx)"
    from n consider "rule_id rule = 11" | "rule_id rule = 12" | "rule_id rule = 13"
      | "rule_id rule = 14" | "rule_id rule = 16" | "rule_id rule = 17" by auto
    then show False
    proof cases
      case 1
      with e investment_threshold(1) [of rule "ctx_company ctx" "ctx_investmentData ctx"] lt
      show False
        by (simp add: assessRule_def Let_def matching_total_def minimum_threshold_def
            investment_items_def sum_investment_sum_list)
    next
      case 2
      with e investment_threshold(2) [of rule "ctx_company ctx" "ctx_investmentData ctx"] lt
      show False
        by (simp add: assessRule_def Let_def matching_total_def minimum_threshold_def
            investment_items_def sum_investment_sum_list)
    next
      case 3
      with e investment_threshold(3) [of rule "ctx_company ctx" "ctx_investmentData ctx"] lt
      show False
        by (simp add: assessRule_def Let_def matching_total_def minimum_threshold_def
            investment_items_def sum_investment_sum_list)
    next
      case 4
      with e investment_threshold(4) [of rule "ctx_company ctx" "ctx_investmentData ctx"] lt
      show False
        by (simp add: assessRule_def Let_def matching_total_def minimum_threshold_def
            investment_items_def sum_investment_sum_list)
    next
      case 5
      with e expense_threshold(1) [of rule "ctx_company ctx" "ctx_rndData ctx"] lt
      show False
        by (simp add: assessRule_def Let_def matching_total_def minimum_threshold_def
            rnd_items_def sum_expense_sum_list)
    next
      case 6
      with e expense_threshold(2) [of rule "ctx_company ctx" "ctx_rndData ctx"] lt
      show False
        by (simp add: assessRule_def Let_def matching_total_def minimum_threshold_def
            rnd_items_def sum_expense_sum_list)
    qed
  qed
qed

text \<open>
  Automation equipment for 9,999,999 under rule 11 and a smart factory line for 50,000,000
  under rule 14.
\<close>

theorem below_threshold_ineligible_witness:
  "rule_id (rule_n 11) \<in> {11, 12, 13, 14, 16, 17}
   \<and> matching_total (rule_id (rule_n 11)) small_investment_context = 9999999
   \<and> matching_total (rule_id (rule_n 11)) small_investment_context
        < minimum_threshold (rule_id (rule_n 11))
   \<and> \<not> eligible (assessRule 2026 (rule_n 11) small_investment_context)
   \<and> rule_id (rule_n 14) \<in> {11, 12, 13, 14, 16, 17}
   \<and> matching_total (rule_id (rule_n 14)) small_investment_context = 50000000
   \<and> matching_total (rule_id (rule_n 14)) small_investment_context
        < minimum_threshold (rule_id (rule_n 14))
   \<and> \<not> eligible (assessRule 2026 (rule_n 14) small_investment_context)"
  using below_threshold_ineligible [of "rule_n 11" small_investment_context 2026]
        below_threshold_ineligible [of "rule_n 14" small_investment_context 2026]
  by (simp add: matching_total_def minimum_threshold_def investment_items_def
      facility_matches_def category_in_def absent_as_zero_def small_investment_context_def
      example_defs tag_defs)

subsection \<open>Properties of binary64 rounding\<close>

lemma pow2_pos: "0 < pow2 e"
  by (simp add: pow2_def)

lemma round_half_even_nonneg: "0 \<le> q \<Longrightarrow> 0 \<le> round_half_even q"
  by (simp add: round_half_even_def Let_def)

lemma fl_zero: "fl 0 = 0"
  by (simp add: fl_def)

lemma fl_nonneg: "0 \<le> x \<Longrightarrow> 0 \<le> fl x"
proof (cases "x = 0")
  case True
  then show ?thesis by (simp add: fl_zero)
next
  case False
  assume "0 \<le> x"
  with False have pos: "0 < x" by simp
  let ?ulp = "pow2 (max (binary_exponent \<bar>x\<bar>) (- 1022) - 52)"
  have "0 \<le> \<bar>x\<bar> / ?ulp"
    using pow2_pos [of "max (binary_exponent \<bar>x\<bar>) (- 1022) - 52"] by simp
  then have "0 \<le> round_half_even (\<bar>x\<bar> / ?ulp)"
    by (rule round_half_even_nonneg)
  then have "0 \<le> of_int (round_half_even (\<bar>x\<bar> / ?ulp)) * ?ulp"
    using pow2_pos [of "max (binary_exponent \<bar>x\<bar>) (- 1022) - 52"]
    by (simp add: zero_le_mult_iff)
  with pos False show ?thesis
    by (simp add: fl_def Let_def)
qed

lemma fl_fold_nonneg:
  "0 \<le> s \<Longrightarrow> (\<And>x. x \<in> set xs \<Longrightarrow> 0 \<le> x) \<Longrightarrow> 0 \<le> foldl (\<lambda>acc x. fl (acc + x)) s xs"
proof (induction xs arbitrary: s)
  case Nil
  then show ?case by simp
next
  case (Cons y ys)
  have "0 \<le> fl (s + y)"
    using Cons.prems by (intro fl_nonneg) simp
  then show ?case
    using Cons.prems by (simp add: Cons.IH)
qed

lemma fl_sum_nonneg: "(\<And>x. x \<in> set xs \<Longrightarrow> 0 \<le> x) \<Longrightarrow> 0 \<le> fl_sum xs"
  unfolding fl_sum_def by (rule fl_fold_nonneg) simp_all

subsection \<open>Research and development expense (rule 15)\<close>

lemma foldl_filter_cong:
  "(\<And>a x. P x \<Longrightarrow> f a x = g a x) \<Longrightarrow>
     foldl f s (filter P xs) = foldl g s (filter P xs)"
  by (induction xs arbitrary: s) simp_all

lemma dispatch_rule15:
  "rule_id rule = 15 \<Longrightarrow>
     assessRule cy rule ctx = assessRndExpense rule (ctx_company ctx) (ctx_rndData ctx)"
  by (simp add: assessRule_def Let_def)

lemma dispatch_rule6:
  "rule_id rule = 6 \<Longrightarrow>
     assessRule cy rule ctx = assessSmeSpecialReduction rule (ctx_company ctx) (ctx_otherData ctx)"
  by (simp add: assessRule_def Let_def)

lemma rule_n_id: "rule_id (rule_n n) = n"
  by (simp add: rule_n_def)

lemma rnd_item_rate:
  "rnd_matches 15 rnd \<Longrightarrow>
     (if rnd_type rnd = Some str_general_rnd then
        (if ct = str_sme then fl 0.25 else if ct = str_midsize then fl 0.15 else fl 0.05)
      else if rnd_type rnd = Some str_new_growth_rnd then
        (if ct = str_sme then fl 0.30 else if ct = str_midsize then fl 0.20 else fl 0.10)
      else fl 0.05) = fl (rnd_rate (rnd_category rnd) ct)"
  by (auto simp: rnd_matches_def category_in_def rnd_rate_def rnd_category_def
      split: option.splits)

lemma rnd_fold_sum:
  "foldl (\<lambda>totalCredit rnd.
            let expense = or_num (expense_amount rnd) 0;
                creditRate =
                  (if rnd_type rnd = Some str_general_rnd then
                     (if ct = str_sme then fl 0.25
                      else if ct = str_midsize then fl 0.15
                      else fl 0.05)
                   else if rnd_type rnd = Some str_new_growth_rnd then
                     (if ct = str_sme then fl 0.30
                      else if ct = str_midsize then fl 0.20
                      else fl 0.10)
                   else fl 0.05)
            in fl (totalCredit + fl (expense * creditRate))) 0 (filter (rnd_matches 15) xs) =
     fl_sum (map (\<lambda>rnd. fl (absent_as_zero (expense_amount rnd)
                              * fl (rnd_rate (rnd_category rnd) ct)))
       (filter (rnd_matches 15) xs))"
  unfolding Let_def fl_sum_def foldl_map or_num_zero
  by (rule foldl_filter_cong) (simp only: rnd_item_rate)

lemma rnd_expense_sum:
  "creditAmount (assessRndExpense rule c data) =
     fl_sum (map (\<lambda>rnd. fl (absent_as_zero (expense_amount rnd)
                              * fl (rnd_rate (rnd_category rnd) (company_type c))))
       (filter (rnd_matches 15) (case data of None \<Rightarrow> [] | Some xs \<Rightarrow> xs)))"
proof (cases data)
  case None
  then show ?thesis by (simp add: assessRndExpense_def fl_sum_def)
next
  case (Some xs)
  show ?thesis
  proof (cases "filter (rnd_matches 15) xs = []")
    case True
    with Some show ?thesis
      unfolding assessRndExpense_def rnd_filters by (simp add: Let_def fl_sum_def)
  next
    case False
    then have "xs \<noteq> []" by auto
    with False Some show ?thesis
      unfolding assessRndExpense_def rnd_filters
      by (simp only: Let_def rnd_fold_sum [unfolded Let_def] option.case if_False
          AssessmentResult.simps)
  qed
qed

lemma rnd_expense_eligible:
  "eligible (assessRndExpense rule c data) =
     (filter (rnd_matches 15) (case data of None \<Rightarrow> [] | Some xs \<Rightarrow> xs) \<noteq> [])"
  unfolding assessRndExpense_def rnd_filters
  by (auto simp: Let_def split: option.split)

lemma mixed_rnd_value:
  "creditAmount (assessRndExpense (rule_n 15) (ctx_company mixed_rnd_context)
     (ctx_rndData mixed_rnd_context)) = 4000000"
  by code_simp

lemma odd_rnd_value:
  "creditAmount (assessRndExpense (rule_n 15) (ctx_company odd_rnd_context)
     (ctx_rndData odd_rnd_context)) = 5153976217082265 / 17179869184"
  by code_simp

lemma rnd_rates_sme:
  "fl (rnd_rate str_general_rnd str_sme) = 1 / 4"
  "fl (rnd_rate str_new_growth_rnd str_sme) = 5404319552844595 / 18014398509481984"
  by code_simp+

lemma mixed_rnd_kept:
  "filter (rnd_matches 15) (rnd_items mixed_rnd_context) = rnd_items mixed_rnd_context"
  by code_simp

text \<open>
  Claim C7. Rule 15 (research and development expense): the evaluator keeps only the
  items whose category is general or new-growth-engine, and the credit amount is the sum
  over the kept items of the expense of the item times the rate for the category of the
  item and the size of the company (general: small-medium 25%, mid-size 15%, otherwise 5%;
  new-growth: small-medium 30%, mid-size 20%, otherwise 10%). The rate is taken per item,
  and the products and the sum are the ones the code computes: each rate is the binary64
  value of its decimal, each product is a binary64 product, and the sum is accumulated
  from 0 in list order with binary64 additions. Lists of mixed categories are allowed: a
  small-medium company with a general item of 10,000,000 and a new-growth item of
  5,000,000 gets exactly 4,000,000. The outcome is eligible exactly when an item is kept.
\<close>

theorem rnd_expense_credit:
  "rule_id rule = 15 \<Longrightarrow>
     creditAmount (assessRule currentYear rule ctx) =
       fl_sum (map (\<lambda>rnd. fl (absent_as_zero (expense_amount rnd)
                                * fl (rnd_rate (rnd_category rnd) (company_type (ctx_company ctx)))))
         (filter (rnd_matches 15) (rnd_items ctx)))
   \<and> eligible (assessRule currentYear rule ctx) = (filter (rnd_matches 15) (rnd_items ctx) \<noteq> [])
   \<and> creditAmount (assessRule currentYear (rule_n 15) mixed_rnd_context) = 4000000"
proof (intro conjI)
  assume n: "rule_id rule = 15"
  show "creditAmount (assessRule currentYear rule ctx) =
       fl_sum (map (\<lambda>rnd. fl (absent_as_zero (expense_amount rnd)
                                * fl (rnd_rate (rnd_category rnd) (company_type (ctx_company ctx)))))
         (filter (rnd_matches 15) (rnd_items ctx)))"
    by (simp only: dispatch_rule15 [OF n] rnd_expense_sum rnd_items_def)
  show "eligible (assessRule currentYear rule ctx) =
       (filter (rnd_matches 15) (rnd_items ctx) \<noteq> [])"
    by (simp only: dispatch_rule15 [OF n] rnd_expense_eligible rnd_items_def)
  show "creditAmount (assessRule currentYear (rule_n 15) mixed_rnd_context) = 4000000"
    by (simp only: dispatch_rule15 [OF rule_n_id] mixed_rnd_value)
qed

text \<open>
  The mixed list: both items are kept, at the binary64 values of 25% and 30%, and the
  credit is 4,000,000. A single new-growth item of 1,000,003 is credited the binary64
  product 300000.89999999997, which is 5153976217082265 / 2^34.
\<close>

theorem rnd_expense_credit_witness:
  "rule_id (rule_n 15) = 15
   \<and> filter (rnd_matches 15) (rnd_items mixed_rnd_context) = rnd_items mixed_rnd_context
   \<and> fl (rnd_rate str_general_rnd str_sme) = 1 / 4
   \<and> fl (rnd_rate str_new_growth_rnd str_sme) = 5404319552844595 / 18014398509481984
   \<and> eligible (assessRule 2026 (rule_n 15) mixed_rnd_context)
   \<and> creditAmount (assessRule 2026 (rule_n 15) mixed_rnd_context) = 4000000
   \<and> eligible (assessRule 2026 (rule_n 15) odd_rnd_context)
   \<and> creditAmount (assessRule 2026 (rule_n 15) odd_rnd_context)
       = 5153976217082265 / 17179869184"
proof -
  have n: "rule_id (rule_n 15) = 15" by (rule rule_n_id)
  note mixed = rnd_expense_credit [OF n, of 2026 mixed_rnd_context]
  note odd = rnd_expense_credit [OF n, of 2026 odd_rnd_context]
  have k1: "filter (rnd_matches 15) (rnd_items mixed_rnd_context) \<noteq> []" by code_simp
  have k2: "filter (rnd_matches 15) (rnd_items odd_rnd_context) \<noteq> []" by code_simp
  have e1: "eligible (assessRule 2026 (rule_n 15) mixed_rnd_context)"
    using mixed k1 by blast
  have v1: "creditAmount (assessRule 2026 (rule_n 15) mixed_rnd_context) = 4000000"
    using mixed by blast
  have e2: "eligible (assessRule 2026 (rule_n 15) odd_rnd_context)"
    using odd k2 by blast
  have s2: "fl_sum (map (\<lambda>rnd. fl (absent_as_zero (expense_amount rnd)
                * fl (rnd_rate (rnd_category rnd) (company_type (ctx_company odd_rnd_context)))))
              (filter (rnd_matches 15) (rnd_items odd_rnd_context)))
            = 5153976217082265 / 17179869184"
    by code_simp
  have v2: "creditAmount (assessRule 2026 (rule_n 15) odd_rnd_context)
       = 5153976217082265 / 17179869184"
    using odd s2 by (simp only:)
  from n mixed_rnd_kept rnd_rates_sme e1 v1 e2 v2 show ?thesis
    by (intro conjI)
qed

subsection \<open>SME special reduction (rule 6) and donation (rule 18)\<close>

lemma sme_special_eligible:
  "eligible (assessSmeSpecialReduction rule c data) =
     (company_type c = str_sme \<and>
      (case data of None \<Rightarrow> False
       | Some d \<Rightarrow> (case business_income d of None \<Rightarrow> False | Some v \<Rightarrow> v \<noteq> 0)))"
  by (simp add: assessSmeSpecialReduction_def Let_def split: option.split)

lemma sme_special_credit:
  "eligible (assessSmeSpecialReduction rule c (Some d)) \<Longrightarrow>
     creditAmount (assessSmeSpecialReduction rule c (Some d)) =
       fl (tax_liability d * fl (sme_reduction_rate (industry c)))"
  by (auto simp: assessSmeSpecialReduction_def Let_def tax_liability_def
      ten_percent_of_income_def sme_reduction_rate_def absent_as_zero_def or_num_def
      split: option.splits if_splits)

text \<open>
  Claim C8, as stated, fails when the caller supplies a calculated tax of 0: the code
  reads \<^verbatim>\<open>data.calculated_tax || income * 0.10\<close>, so a supplied 0 is replaced by 10% of
  business income. With business income 1,000,000 and calculated tax 0 a small-medium
  manufacturer is credited 10,000, not 0 x 10%.
\<close>

theorem sme_special_reduction_counterexample:
  "rule_id (rule_n 6) = 6
   \<and> ctx_otherData zero_tax_context = Some zero_tax_data
   \<and> calculated_tax zero_tax_data = Some 0
   \<and> eligible (assessRule 2026 (rule_n 6) zero_tax_context)
   \<and> creditAmount (assessRule 2026 (rule_n 6) zero_tax_context) = 10000
   \<and> fl (tax_liability_as_claimed zero_tax_data
          * fl (sme_reduction_rate (industry (ctx_company zero_tax_context)))) = 0"
  by code_simp

text \<open>
  Claim C8, amended. Rule 6 (SME special reduction): only small-medium companies are
  eligible (a company is eligible exactly when it is small-medium and a nonzero business
  income is supplied); for an eligible company the credit equals a tax liability value,
  which is the calculated tax supplied by the caller, or 10% of business income when the
  calculated tax is absent or zero, multiplied by a reduction rate of 10% when the
  industry is one of manufacturing, mining, construction, wholesale and retail, and of 5%
  otherwise. Both products are the binary64 products of the code, with the binary64
  values of the decimals 0.10 and 0.05.
\<close>

theorem sme_special_reduction_credit:
  "rule_id rule = 6 \<Longrightarrow>
     (company_type (ctx_company ctx) \<noteq> str_sme \<longrightarrow>
        \<not> eligible (assessRule currentYear rule ctx))
   \<and> eligible (assessRule currentYear rule ctx) =
        (company_type (ctx_company ctx) = str_sme \<and> has_business_income ctx)
   \<and> (eligible (assessRule currentYear rule ctx) \<and> ctx_otherData ctx = Some d \<longrightarrow>
        creditAmount (assessRule currentYear rule ctx) =
          fl (tax_liability d * fl (sme_reduction_rate (industry (ctx_company ctx)))))"
  using sme_special_credit [of rule "ctx_company ctx" d]
  by (auto simp: dispatch_rule6 sme_special_eligible has_business_income_def)

text \<open>
  A large company; a small-medium manufacturer with a calculated tax of 80,000; the same
  with a calculated tax of 0; and one with business income 1,234,567 and no calculated
  tax, whose liability is the binary64 product 123456.70000000001 and whose credit is the
  binary64 product 12345.670000000002, which is 3393551929421333 / 2^38.
\<close>

theorem sme_special_reduction_credit_witness:
  "rule_id (rule_n 6) = 6
   \<and> company_type (ctx_company large_insured_context) \<noteq> str_sme
   \<and> \<not> eligible (assessRule 2026 (rule_n 6) large_insured_context)
   \<and> eligible (assessRule 2026 (rule_n 6) taxed_context)
   \<and> ctx_otherData taxed_context = Some taxed_data
   \<and> tax_liability taxed_data = 80000
   \<and> fl (sme_reduction_rate (industry (ctx_company taxed_context)))
       = 3602879701896397 / 36028797018963968
   \<and> creditAmount (assessRule 2026 (rule_n 6) taxed_context) = 8000
   \<and> eligible (assessRule 2026 (rule_n 6) zero_tax_context)
   \<and> ctx_otherData zero_tax_context = Some zero_tax_data
   \<and> tax_liability zero_tax_data = 100000
   \<and> creditAmount (assessRule 2026 (rule_n 6) zero_tax_context) = 10000
   \<and> eligible (assessRule 2026 (rule_n 6) untaxed_context)
   \<and> ctx_otherData untaxed_context = Some untaxed_data
   \<and> tax_liability untaxed_data = 2120969955888333 / 17179869184
   \<and> creditAmount (assessRule 2026 (rule_n 6) untaxed_context)
       = 3393551929421333 / 274877906944"
proof -
  have n: "rule_id (rule_n 6) = 6" by (rule rule_n_id)
  note large = sme_special_reduction_credit [OF n, of large_insured_context 2026]
  note taxed = sme_special_reduction_credit [OF n, of taxed_context 2026 taxed_data]
  note zero = sme_special_reduction_credit [OF n, of zero_tax_context 2026 zero_tax_data]
  note untaxed = sme_special_reduction_credit [OF n, of untaxed_context 2026 untaxed_data]
  have a1: "company_type (ctx_company large_insured_context) \<noteq> str_sme" by code_simp
  have a2: "\<not> eligible (assessRule 2026 (rule_n 6) large_insured_context)"
    using large a1 by blast
  have b1: "eligible (assessRule 2026 (rule_n 6) taxed_context)" by code_simp
  have b2: "ctx_otherData taxed_context = Some taxed_data" by code_simp
  have b3: "tax_liability taxed_data = 80000" by code_simp
  have b4: "fl (sme_reduction_rate (industry (ctx_company taxed_context)))
              = 3602879701896397 / 36028797018963968" by code_simp
  have b5: "fl (tax_liability taxed_data
              * fl (sme_reduction_rate (industry (ctx_company taxed_context)))) = 8000"
    by code_simp
  have b6: "creditAmount (assessRule 2026 (rule_n 6) taxed_context) = 8000"
    using taxed b1 b2 b5 by (simp only:)
  have c1: "eligible (assessRule 2026 (rule_n 6) zero_tax_context)" by code_simp
  have c2: "ctx_otherData zero_tax_context = Some zero_tax_data" by code_simp
  have c3: "tax_liability zero_tax_data = 100000" by code_simp
  have c5: "fl (tax_liability zero_tax_data
              * fl (sme_reduction_rate (industry (ctx_company zero_tax_context)))) = 10000"
    by code_simp
  have c6: "creditAmount (assessRule 2026 (rule_n 6) zero_tax_context) = 10000"
    using zero c1 c2 c5 by (simp only:)
  have d1: "eligible (assessRule 2026 (rule_n 6) untaxed_context)" by code_simp
  have d2: "ctx_otherData untaxed_context = Some untaxed_data" by code_simp
  have d3: "tax_liability untaxed_data = 2120969955888333 / 17179869184" by code_simp
  have d5: "fl (tax_liability untaxed_data
              * fl (sme_reduction_rate (industry (ctx_company untaxed_context))))
            = 3393551929421333 / 274877906944"
    by code_simp
  have d6: "creditAmount (assessRule 2026 (rule_n 6) untaxed_context)
            = 3393551929421333 / 274877906944"
    using untaxed d1 d2 d5 by (simp only:)
  from n a1 a2 b1 b2 b3 b4 b6 c1 c2 c3 c6 d1 d2 d3 d6 show ?thesis
    by (intro conjI)
qed

text \<open>
  Claim C10, as stated, fails for a negative donation amount, which is present and
  nonzero: with no business income the eligible donation amount is min(-100, 0) = -100,
  not 0, and the credit amount is -15.
\<close>

theorem donation_counterexample:
  "rule_id (rule_n 18) = 18
   \<and> donation_amount negative_donation_data = Some (- 100)
   \<and> business_income negative_donation_data = None
   \<and> eligible (assessRule 2026 (rule_n 18) negative_donation_context)
   \<and> map_of (details (assessRule 2026 (rule_n 18) negative_donation_context))
        ''eligible_amount'' = Some (JNum (- 100))
   \<and> creditAmount (assessRule 2026 (rule_n 18) negative_donation_context) = - 15"
  by (simp add: assessRule_def assessDonation_def Let_def negative_donation_context_def
      negative_donation_data_def example_defs or_num_def or_str_def
      str_designated_donation_def str_statutory_donation_def)

text \<open>
  Claim C10, amended. Rule 18 (donation): whenever the donation amount is present and
  nonzero the evaluator returns eligible true, even when business income is absent or
  zero; in that case the deduction limit is 0 and the eligible donation amount is
  min(donation amount, 0), so that for a positive donation amount the eligible donation
  amount is 0 and the outcome is eligible with credit amount 0.
\<close>

theorem donation_without_income:
  "rule_id rule = 18 \<and> ctx_otherData ctx = Some d \<and> donation_amount d = Some amount
     \<and> amount \<noteq> 0 \<Longrightarrow>
     eligible (assessRule currentYear rule ctx)
   \<and> (absent_as_zero (business_income d) = 0 \<longrightarrow>
        map_of (details (assessRule currentYear rule ctx)) ''eligible_amount''
          = Some (JNum (min amount 0)))
   \<and> (absent_as_zero (business_income d) = 0 \<and> 0 < amount \<longrightarrow>
        map_of (details (assessRule currentYear rule ctx)) ''eligible_amount'' = Some (JNum 0)
        \<and> creditAmount (assessRule currentYear rule ctx) = 0)"
  by (auto simp: assessRule_def assessDonation_def Let_def or_num_zero)

text \<open>
  A donation of 500,000 with no business income.
\<close>

theorem donation_without_income_witness:
  "rule_id (rule_n 18) = 18
   \<and> ctx_otherData donation_context = Some donation_data
   \<and> donation_amount donation_data = Some 500000
   \<and> (500000 :: rat) \<noteq> 0
   \<and> absent_as_zero (business_income donation_data) = 0
   \<and> eligible (assessRule 2026 (rule_n 18) donation_context)
   \<and> map_of (details (assessRule 2026 (rule_n 18) donation_context)) ''eligible_amount''
        = Some (JNum 0)
   \<and> creditAmount (assessRule 2026 (rule_n 18) donation_context) = 0"
  using donation_without_income [where rule = "rule_n 18" and ctx = donation_context
          and d = donation_data and amount = 500000 and currentYear = 2026]
  by (simp add: donation_context_def donation_data_def example_defs absent_as_zero_def)

section \<open>Range of the credit amount\<close>

lemma is_whole_Ints: "is_whole v = (v \<in> \<int>)"
  unfolding is_whole_def Ints_def by (auto simp: image_iff)

lemma is_whole_zero: "is_whole 0"
  by (simp add: is_whole_def)

lemma floor_fraction: "\<lfloor>10000001 / 4 :: rat\<rfloor> = 2500000"
  by (simp add: floor_eq_iff)

lemma or_num_nonneg: "nonneg x \<Longrightarrow> 0 \<le> d \<Longrightarrow> 0 \<le> or_num x d"
  by (simp add: nonneg_def or_num_def split: option.splits)

lemma absent_as_zero_nonneg: "nonneg x \<Longrightarrow> 0 \<le> absent_as_zero x"
  by (simp add: nonneg_def absent_as_zero_def split: option.splits)

lemma headcount_credit_nonneg:
  "0 \<le> creditAmount (assessEmploymentIncrease rule c data)"
  "0 \<le> creditAmount (assessYouthEmployment rule c data)"
  "0 \<le> creditAmount (assessDisabledEmployment rule c data)"
  "0 \<le> creditAmount (assessCareerBreakWomen rule c data)"
  by (simp_all add: assessEmploymentIncrease_def assessYouthEmployment_def
      assessDisabledEmployment_def assessCareerBreakWomen_def Let_def split: option.split)

lemma social_insurance_nonneg:
  "(case data of None \<Rightarrow> True | Some d \<Rightarrow> nonneg_employment d) \<Longrightarrow>
     0 \<le> creditAmount (assessSocialInsurance rule c data)"
  by (auto simp: assessSocialInsurance_def Let_def nonneg_employment_def or_num_nonneg
      split: option.splits)

lemma sme_special_nonneg:
  assumes "case data of None \<Rightarrow> True | Some d \<Rightarrow> nonneg_other d"
  shows "0 \<le> creditAmount (assessSmeSpecialReduction rule c data)"
proof (cases "eligible (assessSmeSpecialReduction rule c data)")
  case False
  then show ?thesis using reduction_ineligible_zero(1) [of rule c data] by simp
next
  case True
  then obtain d where d: "data = Some d"
    by (cases data) (simp_all add: sme_special_eligible)
  with assms have nn: "nonneg (business_income d)" "nonneg (calculated_tax d)"
    by (simp_all add: nonneg_other_def)
  have "0 \<le> ten_percent_of_income d"
    unfolding ten_percent_of_income_def
    by (intro fl_nonneg mult_nonneg_nonneg absent_as_zero_nonneg nn) simp
  with nn(2) have t: "0 \<le> tax_liability d"
    by (simp add: tax_liability_def nonneg_def split: option.splits)
  have r: "0 \<le> fl (sme_reduction_rate (industry c))"
    by (rule fl_nonneg) (simp add: sme_reduction_rate_def)
  from t r have "0 \<le> tax_liability d * fl (sme_reduction_rate (industry c))"
    by (rule mult_nonneg_nonneg)
  then have "0 \<le> fl (tax_liability d * fl (sme_reduction_rate (industry c)))"
    by (rule fl_nonneg)
  with True d show ?thesis by (simp add: sme_special_credit)
qed

lemma reduction_credit_nonneg:
  assumes "case data of None \<Rightarrow> True | Some d \<Rightarrow> nonneg_other d"
  shows "0 \<le> creditAmount (assessStartupSmeReduction cy rule c data)"
    and "0 \<le> creditAmount (assessManufacturingRelocation rule c data)"
    and "0 \<le> creditAmount (assessSocialEnterpriseReduction rule c data)"
    and "0 \<le> creditAmount (assessYouthStartupReduction cy rule c data)"
    and "0 \<le> creditAmount (assessDonation rule c data)"
  using assms
  by (auto simp: assessStartupSmeReduction_def
      assessManufacturingRelocation_def assessSocialEnterpriseReduction_def
      assessYouthStartupReduction_def assessDonation_def Let_def nonneg_other_def
      or_num_nonneg nonneg_def split: option.splits)

lemma threshold_credit_nonneg:
  "0 \<le> creditAmount (assessProductivityFacilities rule c idata)"
  "0 \<le> creditAmount (assessEnergyEnvironmentFacilities rule c idata)"
  "0 \<le> creditAmount (assessSafetyFacilities rule c idata)"
  "0 \<le> creditAmount (assessSmartFactory rule c idata)"
  "0 \<le> creditAmount (assessDesignExpense rule c rdata)"
  "0 \<le> creditAmount (assessNewTechnologyExpense rule c rdata)"
  by (simp_all add: assessProductivityFacilities_def assessEnergyEnvironmentFacilities_def
      assessSafetyFacilities_def assessSmartFactory_def assessDesignExpense_def
      assessNewTechnologyExpense_def Let_def split: option.split)

lemma rnd_rate_nonneg: "0 \<le> rnd_rate cat ct"
  by (simp add: rnd_rate_def)

lemma rnd_expense_nonneg:
  assumes "list_all (\<lambda>rnd. nonneg (expense_amount rnd)) (case data of None \<Rightarrow> [] | Some xs \<Rightarrow> xs)"
  shows "0 \<le> creditAmount (assessRndExpense rule c data)"
proof -
  have "\<And>x. x \<in> set (case data of None \<Rightarrow> [] | Some xs \<Rightarrow> xs) \<Longrightarrow>
          0 \<le> fl (absent_as_zero (expense_amount x)
                   * fl (rnd_rate (rnd_category x) (company_type c)))"
    using assms
    by (intro fl_nonneg mult_nonneg_nonneg absent_as_zero_nonneg rnd_rate_nonneg)
       (simp add: list_all_iff)
  then show ?thesis
    unfolding rnd_expense_sum by (intro fl_sum_nonneg) auto
qed

lemma credit_nonneg:
  assumes "nonneg_context ctx"
  shows "0 \<le> creditAmount (assessRule cy rule ctx)"
proof -
  from assms have e: "case ctx_employmentData ctx of None \<Rightarrow> True | Some d \<Rightarrow> nonneg_employment d"
    and r: "list_all (\<lambda>rnd. nonneg (expense_amount rnd))
              (case ctx_rndData ctx of None \<Rightarrow> [] | Some xs \<Rightarrow> xs)"
    and ot: "case ctx_otherData ctx of None \<Rightarrow> True | Some d \<Rightarrow> nonneg_other d"
    by (simp_all add: nonneg_context_def rnd_items_def)
  show ?thesis
    by (simp add: assessRule_def Let_def unimplemented_def headcount_credit_nonneg
        social_insurance_nonneg [OF e] sme_special_nonneg [OF ot]
        reduction_credit_nonneg [OF ot]
        threshold_credit_nonneg rnd_expense_nonneg [OF r] vehicle_credit_zero)
qed

lemma whole_mult_numeral: "is_whole v \<Longrightarrow> is_whole (numeral n * v)"
  by (simp add: is_whole_Ints)

lemma headcount_credit_whole:
  "whole (employee_increase d) \<Longrightarrow>
     is_whole (creditAmount (assessEmploymentIncrease rule c (Some d)))"
  "whole (youth_employees d) \<Longrightarrow>
     is_whole (creditAmount (assessYouthEmployment rule c (Some d)))"
  "whole (disabled_employees d) \<Longrightarrow>
     is_whole (creditAmount (assessDisabledEmployment rule c (Some d)))"
  "whole (career_break_women d) \<Longrightarrow>
     is_whole (creditAmount (assessCareerBreakWomen rule c (Some d)))"
  by (auto simp: assessEmploymentIncrease_def assessYouthEmployment_def
      assessDisabledEmployment_def assessCareerBreakWomen_def Let_def whole_def
      whole_mult_numeral is_whole_Ints split: option.splits)

lemma headcount_credit_whole_none:
  "is_whole (creditAmount (assessEmploymentIncrease rule c None))"
  "is_whole (creditAmount (assessYouthEmployment rule c None))"
  "is_whole (creditAmount (assessDisabledEmployment rule c None))"
  "is_whole (creditAmount (assessCareerBreakWomen rule c None))"
  by (simp_all add: assessEmploymentIncrease_def assessYouthEmployment_def
      assessDisabledEmployment_def assessCareerBreakWomen_def Let_def is_whole_Ints)

lemma credit_whole:
  assumes "rule_id rule \<in> {1, 2, 3, 4, 19}" and "whole_counts ctx"
  shows "is_whole (creditAmount (assessRule cy rule ctx))"
proof (cases "ctx_employmentData ctx")
  case None
  with assms(1) show ?thesis
    by (auto simp: assessRule_def Let_def headcount_credit_whole_none vehicle_credit_zero
        is_whole_zero)
next
  case (Some d)
  with assms show ?thesis
    by (auto simp: assessRule_def Let_def headcount_credit_whole vehicle_credit_zero
        whole_counts_def is_whole_zero)
qed

text \<open>
  Claim C9, as stated, fails. No evaluator rounds: contributions of 10,000,001 with three
  more employees give a credit of 2,500,000.25 under rule 5. No evaluator checks signs
  either: a headcount that fell by one makes the per-head cap of rule 5 negative, and the
  credit is -1,000,000.
\<close>

theorem credit_amount_counterexample:
  "eligible (assessRule 2026 (rule_n 5) fractional_context)
   \<and> creditAmount (assessRule 2026 (rule_n 5) fractional_context) = 10000001 / 4
   \<and> \<not> is_whole (creditAmount (assessRule 2026 (rule_n 5) fractional_context))
   \<and> eligible (assessRule 2026 (rule_n 5) shrinking_context)
   \<and> creditAmount (assessRule 2026 (rule_n 5) shrinking_context) = - 1000000
   \<and> creditAmount (assessRule 2026 (rule_n 5) shrinking_context) < 0"
  by (simp add: assessRule_def assessSocialInsurance_def Let_def fractional_context_def
      shrinking_context_def example_defs or_num_def is_whole_def floor_fraction)

text \<open>
  Claim C9, amended. For every rule and every evaluation context whose numeric inputs are
  all non-negative, the credit amount is a non-negative number. It is a whole number for
  the per-head rules 1 to 4 and for rule 19 when the head counts are whole numbers; the
  percentage rules return the unrounded product.
\<close>

theorem credit_amount_nonneg:
  "(nonneg_context ctx \<longrightarrow> 0 \<le> creditAmount (assessRule currentYear rule ctx))
   \<and> (rule_id rule \<in> {1, 2, 3, 4, 19} \<and> whole_counts ctx \<longrightarrow>
        is_whole (creditAmount (assessRule currentYear rule ctx)))"
  using credit_nonneg [of ctx currentYear rule] credit_whole [of rule ctx currentYear]
  by blast

text \<open>
  Rule 5 on contributions of 10,000,001, rule 15 on the mixed list, and rule 1 on two more
  employees.
\<close>

theorem credit_amount_nonneg_witness:
  "nonneg_context fractional_context
   \<and> 0 \<le> creditAmount (assessRule 2026 (rule_n 5) fractional_context)
   \<and> creditAmount (assessRule 2026 (rule_n 5) fractional_context) = 10000001 / 4
   \<and> nonneg_context mixed_rnd_context
   \<and> 0 \<le> creditAmount (assessRule 2026 (rule_n 15) mixed_rnd_context)
   \<and> rule_id (rule_n 1) \<in> {1, 2, 3, 4, 19}
   \<and> whole_counts social_insurance_example
   \<and> is_whole (creditAmount (assessRule 2026 (rule_n 1) social_insurance_example))
   \<and> creditAmount (assessRule 2026 (rule_n 1) social_insurance_example) = 24000000"
  using credit_amount_nonneg [of fractional_context 2026 "rule_n 5"]
        credit_amount_nonneg [of mixed_rnd_context 2026 "rule_n 15"]
        credit_amount_nonneg [of social_insurance_example 2026 "rule_n 1"]
  by (simp add: nonneg_context_def nonneg_employment_def nonneg_def investment_items_def
      rnd_items_def whole_counts_def whole_def is_whole_def fractional_context_def
      mixed_rnd_context_def social_insurance_example_def social_insurance_data_def
      example_defs assessRule_def assessSocialInsurance_def assessEmploymentIncrease_def
      Let_def or_num_def)

end
